theory Spec2Isabelle
  imports Complex_Main "HOL-Library.Word" "HOL-Library.Multiset"
begin

section \<open>Cell values\<close>

text \<open>
  Every cell of a table is a C++ \<open>double\<close>. The model keeps the special values of
  IEEE-754 that the code can observe (the missing-value sentinel NaN and the two
  infinities) and takes every other value to be the real number it denotes; the
  sign of zero is outside the model. The rules for the special values are those
  of IEEE-754 (NaN is contagious, \<open>inf - inf\<close> and \<open>0 * inf\<close> are NaN, every
  comparison with NaN is false).

  The functions \<open>d_add\<close>, \<open>d_sub\<close>, \<open>d_mul\<close>, \<open>d_div\<close> and \<open>d_sqrt\<close> give the exact
  result of an operation. The machine rounds a finite result to a \<open>double\<close>, or
  to an infinity when it is out of range: \<open>r_add\<close>, \<open>r_sub\<close>, \<open>r_mul\<close>, \<open>r_div\<close> and
  \<open>r_sqrt\<close> below are the machine's operations, for a rounding function \<open>rnd\<close>
  that they take as a parameter. Nothing is assumed of \<open>rnd\<close> in a definition; a
  theorem that needs a property of it (it never returns NaN) says so. The
  aggregations, whose results depend on the rounding, are written with the
  rounded operations.
\<close>

datatype double = NaN | NInf | Fin real | PInf

text \<open>\<open>std::isnan(v)\<close>, and the idiom \<open>!(v == v)\<close> of the source.\<close>

definition isnan :: "double \<Rightarrow> bool" where
  "isnan v = (v = NaN)"

text \<open>\<open>std::isfinite(v)\<close>.\<close>

fun isfinite :: "double \<Rightarrow> bool" where
  "isfinite (Fin x) = True"
| "isfinite v = False"

text \<open>The comparison operators of \<open>double\<close>: \<open>==\<close>, \<open><\<close>, \<open>>\<close>, \<open><=\<close>, \<open>>=\<close>.\<close>

definition d_eq :: "double \<Rightarrow> double \<Rightarrow> bool" where
  "d_eq a b = (a \<noteq> NaN \<and> b \<noteq> NaN \<and> a = b)"

fun d_lt :: "double \<Rightarrow> double \<Rightarrow> bool" where
  "d_lt NaN b = False"
| "d_lt a NaN = False"
| "d_lt PInf b = False"
| "d_lt a NInf = False"
| "d_lt NInf b = True"
| "d_lt a PInf = True"
| "d_lt (Fin x) (Fin y) = (x < y)"

definition d_gt :: "double \<Rightarrow> double \<Rightarrow> bool" where
  "d_gt a b = d_lt b a"

definition d_le :: "double \<Rightarrow> double \<Rightarrow> bool" where
  "d_le a b = (d_lt a b \<or> d_eq a b)"

definition d_ge :: "double \<Rightarrow> double \<Rightarrow> bool" where
  "d_ge a b = d_le b a"

text \<open>Unary minus and the four arithmetic operators.\<close>

fun d_neg :: "double \<Rightarrow> double" where
  "d_neg NaN = NaN"
| "d_neg NInf = PInf"
| "d_neg PInf = NInf"
| "d_neg (Fin x) = Fin (- x)"

fun d_add :: "double \<Rightarrow> double \<Rightarrow> double" where
  "d_add NaN b = NaN"
| "d_add a NaN = NaN"
| "d_add PInf NInf = NaN"
| "d_add NInf PInf = NaN"
| "d_add PInf b = PInf"
| "d_add a PInf = PInf"
| "d_add NInf b = NInf"
| "d_add a NInf = NInf"
| "d_add (Fin x) (Fin y) = Fin (x + y)"

definition d_sub :: "double \<Rightarrow> double \<Rightarrow> double" where
  "d_sub a b = d_add a (d_neg b)"

text \<open>The sign of a non-NaN value: \<open>-1\<close>, \<open>0\<close> or \<open>1\<close>.\<close>

fun d_sgn :: "double \<Rightarrow> int" where
  "d_sgn NaN = 0"
| "d_sgn NInf = - 1"
| "d_sgn PInf = 1"
| "d_sgn (Fin x) = (if x < 0 then - 1 else if x = 0 then 0 else 1)"

definition inf_of_sign :: "int \<Rightarrow> double" where
  "inf_of_sign s = (if s < 0 then NInf else if s = 0 then NaN else PInf)"

fun d_mul :: "double \<Rightarrow> double \<Rightarrow> double" where
  "d_mul NaN b = NaN"
| "d_mul a NaN = NaN"
| "d_mul (Fin x) (Fin y) = Fin (x * y)"
| "d_mul a b = inf_of_sign (d_sgn a * d_sgn b)"

text \<open>
  Division. A zero divisor is taken to be \<open>+0\<close>: a nonzero finite value divided
  by zero is the infinity of the dividend's sign, and \<open>0 / 0\<close> is NaN.
\<close>

fun d_div :: "double \<Rightarrow> double \<Rightarrow> double" where
  "d_div NaN b = NaN"
| "d_div a NaN = NaN"
| "d_div (Fin x) (Fin y) = (if y = 0 then inf_of_sign (d_sgn (Fin x)) else Fin (x / y))"
| "d_div (Fin x) b = Fin 0"
| "d_div a (Fin y) = inf_of_sign (d_sgn a * (if y < 0 then - 1 else 1))"
| "d_div a b = NaN"

text \<open>\<open>std::sqrt\<close> and \<open>std::log\<close>.\<close>

fun d_sqrt :: "double \<Rightarrow> double" where
  "d_sqrt NaN = NaN"
| "d_sqrt NInf = NaN"
| "d_sqrt PInf = PInf"
| "d_sqrt (Fin x) = (if x < 0 then NaN else Fin (sqrt x))"

fun d_log :: "double \<Rightarrow> double" where
  "d_log NaN = NaN"
| "d_log NInf = NaN"
| "d_log PInf = PInf"
| "d_log (Fin x) = (if x < 0 then NaN else if x = 0 then NInf else Fin (ln x))"

text \<open>\<open>static_cast<double>(n)\<close> for a \<open>std::size_t\<close> \<open>n\<close>.\<close>

definition of_size_t :: "nat \<Rightarrow> double" where
  "of_size_t n = Fin (real n)"

text \<open>
  The machine's arithmetic: the exact result, rounded by \<open>rnd\<close> when it is finite.
\<close>

definition rounded :: "(real \<Rightarrow> double) \<Rightarrow> double \<Rightarrow> double" where
  "rounded rnd v = (case v of Fin x \<Rightarrow> rnd x | _ \<Rightarrow> v)"

definition r_add :: "(real \<Rightarrow> double) \<Rightarrow> double \<Rightarrow> double \<Rightarrow> double" where
  "r_add rnd a b = rounded rnd (d_add a b)"

definition r_sub :: "(real \<Rightarrow> double) \<Rightarrow> double \<Rightarrow> double \<Rightarrow> double" where
  "r_sub rnd a b = rounded rnd (d_sub a b)"

definition r_mul :: "(real \<Rightarrow> double) \<Rightarrow> double \<Rightarrow> double \<Rightarrow> double" where
  "r_mul rnd a b = rounded rnd (d_mul a b)"

definition r_div :: "(real \<Rightarrow> double) \<Rightarrow> double \<Rightarrow> double \<Rightarrow> double" where
  "r_div rnd a b = rounded rnd (d_div a b)"

definition r_sqrt :: "(real \<Rightarrow> double) \<Rightarrow> double \<Rightarrow> double" where
  "r_sqrt rnd a = rounded rnd (d_sqrt a)"


section \<open>The table\<close>

text \<open>
  The data members of \<open>DataFrame<IndexT>\<close>: \<open>columns_\<close>, \<open>index_\<close>, \<open>data_\<close> and
  \<open>index_name_\<close> (the trailing underscore of the source is dropped). A method that
  throws \<open>std::runtime_error\<close> returns \<open>Inl\<close> of the message.
\<close>

record 'i DataFrame =
  columns :: "string list"
  index :: "'i list"
  data :: "double list list"
  index_name :: string

type_synonym 'a result = "string + 'a"

definition rows :: "'i DataFrame \<Rightarrow> nat" where
  "rows df = length (data df)"

definition cols :: "'i DataFrame \<Rightarrow> nat" where
  "cols df = length (columns df)"

text \<open>A default-constructed \<open>DataFrame\<close>.\<close>

definition empty_frame :: "'i DataFrame" where
  "empty_frame = \<lparr>columns = [], index = [], data = [], index_name = ''index''\<rparr>"

text \<open>
  The invariant of section 3 of the specification: one index value per row, and
  every row as long as the column list.
\<close>

definition wf_frame :: "'i DataFrame \<Rightarrow> bool" where
  "wf_frame df =
     (length (index df) = length (data df) \<and>
      list_all (\<lambda>row. length row = length (columns df)) (data df))"


section \<open>Appending a column\<close>

text \<open>
  \<open>DataFrame::add_column\<close> mutates the receiver; the model returns the new
  table. Every \<open>throw\<close> of the source happens before the first mutation.
\<close>

definition add_column :: "string \<Rightarrow> double list \<Rightarrow> 'i DataFrame \<Rightarrow> 'i DataFrame result" where
  "add_column name vals df =
     (if name \<in> set (columns df) then Inl ''dataframe::add_column: column already exists''
      else if rows df = 0 then
        (if vals \<noteq> [] then Inl ''dataframe::add_column: cannot add data to an empty dataframe''
         else Inr (df\<lparr>columns := columns df @ [name]\<rparr>))
      else if length vals \<noteq> rows df then Inl ''dataframe::add_column: value count mismatch''
      else Inr (df\<lparr>columns := columns df @ [name],
                    data := map (\<lambda>r. data df ! r @ [vals ! r]) [0..<rows df]\<rparr>))"


section \<open>Elementwise transforms\<close>

text \<open>
  A loop whose body may throw: the elements are visited in order and the first
  exception ends the loop.
\<close>

fun map_result :: "('a \<Rightarrow> 'b result) \<Rightarrow> 'a list \<Rightarrow> 'b list result" where
  "map_result f [] = Inr []"
| "map_result f (x # xs) =
     (case f x of
        Inl e \<Rightarrow> Inl e
      | Inr y \<Rightarrow> (case map_result f xs of Inl e \<Rightarrow> Inl e | Inr ys \<Rightarrow> Inr (y # ys)))"

text \<open>
  \<open>DataFrame::apply_scalar\<close> copies the table and replaces every cell of every
  row by \<open>func(cell)\<close>; \<open>apply_unary\<close> forwards to it. \<open>func\<close> may throw.
\<close>

definition apply_scalar :: "(double \<Rightarrow> double result) \<Rightarrow> 'i DataFrame \<Rightarrow> 'i DataFrame result" where
  "apply_scalar func df =
     (case map_result (map_result func) (data df) of
        Inl e \<Rightarrow> Inl e
      | Inr d \<Rightarrow> Inr \<lparr>columns = columns df, index = index df, data = d,
                      index_name = index_name df\<rparr>)"

definition apply_unary :: "(double \<Rightarrow> double result) \<Rightarrow> string \<Rightarrow> 'i DataFrame \<Rightarrow> 'i DataFrame result" where
  "apply_unary func name df = apply_scalar func df"

text \<open>\<open>DataFrame::apply_binary\<close>: the three alignment checks, then the cell loop.\<close>

definition apply_binary ::
  "'i DataFrame \<Rightarrow> (double \<Rightarrow> double \<Rightarrow> double result) \<Rightarrow> string \<Rightarrow> 'i DataFrame \<Rightarrow> 'i DataFrame result" where
  "apply_binary other func name df =
     (if rows df \<noteq> rows other \<or> cols df \<noteq> cols other
      then Inl (''dataframe::'' @ name @ '': shape mismatch'')
      else if columns df \<noteq> columns other
      then Inl (''dataframe::'' @ name @ '': column mismatch'')
      else if index df \<noteq> index other
      then Inl (''dataframe::'' @ name @ '': index mismatch'')
      else
        (case map_result
                (\<lambda>r. map_result (\<lambda>c. func (data df ! r ! c) (data other ! r ! c)) [0..<cols df])
                [0..<rows df] of
           Inl e \<Rightarrow> Inl e
         | Inr d \<Rightarrow> Inr \<lparr>columns = columns df, index = index df, data = d,
                         index_name = index_name df\<rparr>))"

text \<open>The scalar overloads \<open>add\<close>, \<open>subtract\<close>, \<open>multiply\<close>, \<open>divide\<close>.\<close>

definition add :: "double \<Rightarrow> 'i DataFrame \<Rightarrow> 'i DataFrame result" where
  "add val df = apply_scalar (\<lambda>v. Inr (d_add v val)) df"

definition subtract :: "double \<Rightarrow> 'i DataFrame \<Rightarrow> 'i DataFrame result" where
  "subtract val df = apply_scalar (\<lambda>v. Inr (d_sub v val)) df"

definition multiply :: "double \<Rightarrow> 'i DataFrame \<Rightarrow> 'i DataFrame result" where
  "multiply val df = apply_scalar (\<lambda>v. Inr (d_mul v val)) df"

definition divide :: "double \<Rightarrow> 'i DataFrame \<Rightarrow> 'i DataFrame result" where
  "divide val df =
     (if d_eq val (Fin 0) then Inl ''dataframe::divide: division by zero''
      else apply_scalar (\<lambda>v. Inr (d_div v val)) df)"

text \<open>The table overloads.\<close>

definition add_frame :: "'i DataFrame \<Rightarrow> 'i DataFrame \<Rightarrow> 'i DataFrame result" where
  "add_frame other df = apply_binary other (\<lambda>a b. Inr (d_add a b)) ''add'' df"

definition subtract_frame :: "'i DataFrame \<Rightarrow> 'i DataFrame \<Rightarrow> 'i DataFrame result" where
  "subtract_frame other df = apply_binary other (\<lambda>a b. Inr (d_sub a b)) ''subtract'' df"

definition multiply_frame :: "'i DataFrame \<Rightarrow> 'i DataFrame \<Rightarrow> 'i DataFrame result" where
  "multiply_frame other df = apply_binary other (\<lambda>a b. Inr (d_mul a b)) ''multiply'' df"

definition divide_frame :: "'i DataFrame \<Rightarrow> 'i DataFrame \<Rightarrow> 'i DataFrame result" where
  "divide_frame other df =
     apply_binary other
       (\<lambda>a b. if d_eq b (Fin 0) then Inl ''dataframe::divide: division by zero element''
              else Inr (d_div a b))
       ''divide'' df"

text \<open>\<open>DataFrame::log_elements\<close>.\<close>

definition log_elements :: "'i DataFrame \<Rightarrow> 'i DataFrame result" where
  "log_elements df =
     apply_unary
       (\<lambda>v. if isnan v then Inr NaN
            else if \<not> d_gt v (Fin 0)
            then Inl ''dataframe::log_elements: non-positive value encountered''
            else Inr (d_log v))
       ''log_elements'' df"


section \<open>Changes between consecutive rows\<close>

text \<open>
  \<open>DataFrame::differences\<close>, \<open>log_changes\<close> and \<open>proportional_changes\<close>: output row
  \<open>r - 1\<close> is computed from the input rows \<open>r - 1\<close> and \<open>r\<close>, for \<open>r\<close> from 1.
\<close>

definition differences :: "'i DataFrame \<Rightarrow> 'i DataFrame result" where
  "differences df =
     (if rows df < 2 then Inl ''dataframe::differences: need at least two rows''
      else Inr \<lparr>columns = columns df, index = drop 1 (index df),
                data = map (\<lambda>r. map (\<lambda>c. d_sub (data df ! r ! c) (data df ! (r - 1) ! c))
                                   [0..<cols df]) [1..<rows df],
                index_name = index_name df\<rparr>)"

definition log_changes :: "'i DataFrame \<Rightarrow> 'i DataFrame result" where
  "log_changes df =
     (if rows df < 2 then Inl ''dataframe::log_changes: need at least two rows''
      else
        (case map_result
                (\<lambda>r. map_result
                       (\<lambda>c. let prev = data df ! (r - 1) ! c; curr = data df ! r ! c in
                            if \<not> d_gt prev (Fin 0) \<or> \<not> d_gt curr (Fin 0)
                            then Inl ''dataframe::log_changes: non-positive value encountered''
                            else Inr (d_sub (d_log curr) (d_log prev)))
                       [0..<cols df])
                [1..<rows df] of
           Inl e \<Rightarrow> Inl e
         | Inr d \<Rightarrow> Inr \<lparr>columns = columns df, index = drop 1 (index df), data = d,
                         index_name = index_name df\<rparr>))"

definition proportional_changes :: "'i DataFrame \<Rightarrow> 'i DataFrame result" where
  "proportional_changes df =
     (if rows df < 2 then Inl ''dataframe::proportional_changes: need at least two rows''
      else
        (case map_result
                (\<lambda>r. map_result
                       (\<lambda>c. let prev = data df ! (r - 1) ! c; curr = data df ! r ! c in
                            if d_eq prev (Fin 0)
                            then Inl ''dataframe::proportional_changes: zero value encountered''
                            else Inr (d_div (d_sub curr prev) prev))
                       [0..<cols df])
                [1..<rows df] of
           Inl e \<Rightarrow> Inl e
         | Inr d \<Rightarrow> Inr \<lparr>columns = columns df, index = drop 1 (index df), data = d,
                         index_name = index_name df\<rparr>))"


section \<open>Rolling mean\<close>

text \<open>\<open>static_cast<int>(n)\<close> for a \<open>std::size_t\<close> \<open>n\<close>, with \<open>int\<close> of 32 bits.\<close>

definition int_of_size_t :: "nat \<Rightarrow> int" where
  "int_of_size_t n = sint (word_of_nat n :: 32 word)"

text \<open>
  The body of the inner loop of \<open>DataFrame::rolling_mean\<close> at row \<open>r\<close> and column
  \<open>c\<close>. The state is the triple of \<open>sums\<close> (here \<open>csums\<close>), \<open>valid_counts\<close> and
  \<open>out.data_\<close>.
  \<open>valid_counts\<close> holds C++ \<open>int\<close>s; they stay within the number of rows, so the
  model counts in unbounded integers. The running sum is updated with the
  machine's rounded addition and subtraction.
\<close>

definition rolling_mean_cell ::
  "(real \<Rightarrow> double) \<Rightarrow> 'i DataFrame \<Rightarrow> nat \<Rightarrow> nat \<Rightarrow> nat \<Rightarrow>
   double list \<times> int list \<times> double list list \<Rightarrow> double list \<times> int list \<times> double list list" where
  "rolling_mean_cell rnd df window r c st =
     (case st of (csums, valid_counts, out) \<Rightarrow>
        let val = data df ! r ! c;
            is_nan = \<not> d_eq val val;
            csums1 = (if \<not> is_nan then csums[c := r_add rnd (csums ! c) val] else csums);
            counts1 = (if \<not> is_nan then valid_counts[c := valid_counts ! c + 1]
                       else valid_counts);
            old_value = data df ! (r - window) ! c;
            old_is_nan = \<not> d_eq old_value old_value;
            csums2 = (if r \<ge> window \<and> \<not> old_is_nan
                     then csums1[c := r_sub rnd (csums1 ! c) old_value] else csums1);
            counts2 = (if r \<ge> window \<and> \<not> old_is_nan
                       then counts1[c := counts1 ! c - 1] else counts1);
            out1 = (if r + 1 \<ge> window
                    then (if counts2 ! c = int_of_size_t window
                          then out[r + 1 - window :=
                                 (out ! (r + 1 - window))[c := r_div rnd (csums2 ! c) (of_size_t window)]]
                          else out[r + 1 - window := (out ! (r + 1 - window))[c := NaN]])
                    else out)
        in (csums2, counts2, out1))"

definition rolling_mean :: "(real \<Rightarrow> double) \<Rightarrow> nat \<Rightarrow> 'i DataFrame \<Rightarrow> 'i DataFrame result" where
  "rolling_mean rnd window df =
     (if window = 0 then Inl ''dataframe::rolling_mean: window must be positive''
      else if window > rows df then Inl ''dataframe::rolling_mean: window exceeds row count''
      else
        let out0 = replicate (rows df - window + 1) (replicate (cols df) (Fin 0));
            st = fold (\<lambda>r. fold (rolling_mean_cell rnd df window r) [0..<cols df]) [0..<rows df]
                   (replicate (cols df) (Fin 0), replicate (cols df) 0, out0)
        in Inr \<lparr>columns = columns df, index = drop (window - 1) (index df),
                  data = snd (snd st), index_name = index_name df\<rparr>)"


section \<open>Lookup\<close>

text \<open>\<open>DataFrame::find_column_index\<close> and \<open>DataFrame::find_row_position\<close>: a linear
  scan that returns the first match.\<close>

definition find_column_index :: "string \<Rightarrow> 'i DataFrame \<Rightarrow> nat result" where
  "find_column_index name df =
     (case find (\<lambda>i. columns df ! i = name) [0..<length (columns df)] of
        Some i \<Rightarrow> Inr i
      | None \<Rightarrow> Inl ''dataframe::select_columns: column not found'')"

definition find_row_position :: "'i \<Rightarrow> 'i DataFrame \<Rightarrow> nat result" where
  "find_row_position v df =
     (case find (\<lambda>i. index df ! i = v) [0..<length (index df)] of
        Some i \<Rightarrow> Inr i
      | None \<Rightarrow> Inl ''dataframe::select_rows: index not found'')"


section \<open>Sorting\<close>

text \<open>
  \<open>std::stable_sort\<close> with a comparator. The library routine is modelled by
  insertion sort, which is stable: an element is inserted before the first
  element that is not smaller than it. For a comparator that is a strict weak
  ordering every stable sort returns the same sequence.
\<close>

fun insert_sorted :: "('a \<Rightarrow> 'a \<Rightarrow> bool) \<Rightarrow> 'a \<Rightarrow> 'a list \<Rightarrow> 'a list" where
  "insert_sorted cmp x [] = [x]"
| "insert_sorted cmp x (y # ys) =
     (if cmp y x then y # insert_sorted cmp x ys else x # y # ys)"

definition stable_sort :: "('a \<Rightarrow> 'a \<Rightarrow> bool) \<Rightarrow> 'a list \<Rightarrow> 'a list" where
  "stable_sort cmp xs = foldr (insert_sorted cmp) xs []"

text \<open>
  The lambda \<open>comparator\<close> of \<open>sort_rows_by_column\<close> and of \<open>sort_columns_by_row\<close>.
  The two lambdas differ only in how a position is turned into its key:
  \<open>data_[pos][column_index]\<close> in the first, \<open>data_[row_position][pos]\<close> in the second.
\<close>

definition comparator :: "(nat \<Rightarrow> double) \<Rightarrow> bool \<Rightarrow> nat \<Rightarrow> nat \<Rightarrow> bool" where
  "comparator key ascending lhs rhs =
     (let left_value = key lhs;
          right_value = key rhs;
          left_nan = \<not> d_eq left_value left_value;
          right_nan = \<not> d_eq right_value right_value
      in if left_nan \<or> right_nan then
           (if left_nan \<and> right_nan then lhs < rhs
            else if ascending then \<not> left_nan \<and> right_nan
            else left_nan \<and> \<not> right_nan)
         else if ascending then d_lt left_value right_value
         else d_gt left_value right_value)"

definition sort_rows_by_column :: "string \<Rightarrow> bool \<Rightarrow> 'i DataFrame \<Rightarrow> 'i DataFrame result" where
  "sort_rows_by_column column_name ascending df =
     (if cols df = 0 then Inl ''dataframe::sort_rows_by_column: no columns to sort by''
      else
        (case find_column_index column_name df of
           Inl e \<Rightarrow> Inl e
         | Inr column_index \<Rightarrow>
             let order = stable_sort (comparator (\<lambda>pos. data df ! pos ! column_index) ascending)
                           [0..<rows df]
             in Inr \<lparr>columns = columns df,
                      index = map (\<lambda>position. index df ! position) order,
                      data = map (\<lambda>position. data df ! position) order,
                      index_name = index_name df\<rparr>))"

definition sort_columns_by_row :: "'i \<Rightarrow> bool \<Rightarrow> 'i DataFrame \<Rightarrow> 'i DataFrame result" where
  "sort_columns_by_row index_value ascending df =
     (if cols df = 0 then Inl ''dataframe::sort_columns_by_row: no columns to sort''
      else if rows df = 0 then Inl ''dataframe::sort_columns_by_row: no rows available''
      else
        (case find_row_position index_value df of
           Inl e \<Rightarrow> Inl e
         | Inr row_position \<Rightarrow>
             let order = stable_sort (comparator (\<lambda>pos. data df ! row_position ! pos) ascending)
                           [0..<cols df]
             in Inr \<lparr>columns = map (\<lambda>i. columns df ! i) order,
                      index = index df,
                      data = map (\<lambda>r. map (\<lambda>c. data df ! r ! c) order) [0..<rows df],
                      index_name = index_name df\<rparr>))"


section \<open>Percentiles\<close>

text \<open>\<open>std::floor\<close> and \<open>std::ceil\<close>.\<close>

fun d_floor :: "double \<Rightarrow> double" where
  "d_floor (Fin x) = Fin (of_int \<lfloor>x\<rfloor>)"
| "d_floor v = v"

fun d_ceil :: "double \<Rightarrow> double" where
  "d_ceil (Fin x) = Fin (of_int \<lceil>x\<rceil>)"
| "d_ceil v = v"

text \<open>
  \<open>static_cast<std::size_t>(v)\<close> for a \<open>double\<close> \<open>v\<close>: truncation towards zero. The
  conversion of NaN, of an infinity and of a value whose truncation is not a
  \<open>std::size_t\<close> (of 64 bits) is undefined behaviour in C++, here \<open>None\<close>.
\<close>

fun to_size_t :: "double \<Rightarrow> nat option" where
  "to_size_t (Fin x) = (if - 1 < x \<and> x < 2 ^ 64 then Some (nat \<lfloor>x\<rfloor>) else None)"
| "to_size_t v = None"

text \<open>
  The non-missing values of column \<open>c\<close>, in row order: the loop that fills
  \<open>values\<close> in \<open>column_percentiles\<close>.
\<close>

definition column_values :: "'i DataFrame \<Rightarrow> nat \<Rightarrow> double list" where
  "column_values df c = filter (\<lambda>v. d_eq v v) (map (\<lambda>r. data df ! r ! c) [0..<rows df])"

text \<open>
  The body of the loop over the requested percentiles, for the sorted non-empty
  \<open>vals\<close> of one column. An undefined conversion to \<open>std::size_t\<close> is reported as
  an error of the model's own.
\<close>

definition percentile_of :: "double list \<Rightarrow> double \<Rightarrow> double result" where
  "percentile_of vals percentile =
     (if d_le percentile (Fin 0) then Inr (hd vals)
      else if d_ge percentile (Fin 100) then Inr (last vals)
      else
        let rank = d_mul (d_div percentile (Fin 100)) (of_size_t (length vals - 1)) in
        (case (to_size_t (d_floor rank), to_size_t (d_ceil rank)) of
           (Some lower, Some upper) \<Rightarrow>
             let fraction = d_sub rank (of_size_t lower);
                 lower_value = vals ! lower;
                 upper_value = vals ! upper
             in Inr (d_add lower_value (d_mul fraction (d_sub upper_value lower_value)))
         | _ \<Rightarrow> Inl ''undefined behaviour: conversion of a double to std::size_t''))"

text \<open>
  \<open>DataFrame::column_percentiles\<close>. \<open>fmt\<close> is the stream output of a \<open>double\<close>
  (\<open>oss << p\<close>), which writes the row labels. \<open>std::sort\<close> on the values, none of
  which is NaN, is modelled by \<open>stable_sort\<close> with \<open><\<close>: values that compare
  equal are the same value, so every sort returns the same sequence.
\<close>

definition column_percentiles ::
  "(double \<Rightarrow> string) \<Rightarrow> double list \<Rightarrow> 'i DataFrame \<Rightarrow> string DataFrame result" where
  "column_percentiles fmt percentiles df =
     (if columns df = [] then Inl ''dataframe::column_percentiles: no columns''
      else if percentiles = [] then Inl ''dataframe::column_percentiles: no percentiles specified''
      else if \<exists>p \<in> set percentiles. d_lt p (Fin 0) \<or> d_gt p (Fin 100)
      then Inl ''dataframe::column_percentiles: percentiles must be in [0, 100]''
      else
        (case map_result
                (\<lambda>p_idx. map_result
                   (\<lambda>c. let vals = column_values df c in
                        if vals = [] then Inr NaN
                        else percentile_of (stable_sort d_lt vals) (percentiles ! p_idx))
                   [0..<cols df])
                [0..<length percentiles] of
           Inl e \<Rightarrow> Inl e
         | Inr d \<Rightarrow> Inr \<lparr>columns = columns df, index = map fmt percentiles, data = d,
                         index_name = ''percentile''\<rparr>))"


section \<open>Selection by position\<close>

text \<open>\<open>DataFrame::select_rows_by_positions\<close> and \<open>select_columns_by_positions\<close>.\<close>

definition select_rows_by_positions :: "nat list \<Rightarrow> 'i DataFrame \<Rightarrow> 'i DataFrame result" where
  "select_rows_by_positions positions df =
     (if \<exists>pos \<in> set positions. pos \<ge> rows df
      then Inl ''dataframe::select_rows: position out of bounds''
      else Inr \<lparr>columns = columns df,
                index = map (\<lambda>pos. index df ! pos) positions,
                data = map (\<lambda>pos. data df ! pos) positions,
                index_name = index_name df\<rparr>)"

definition select_columns_by_positions :: "nat list \<Rightarrow> 'i DataFrame \<Rightarrow> 'i DataFrame result" where
  "select_columns_by_positions positions df =
     (if \<exists>pos \<in> set positions. pos \<ge> cols df
      then Inl ''dataframe::select_columns: position out of bounds''
      else Inr \<lparr>columns = map (\<lambda>pos. columns df ! pos) positions,
                index = index df,
                data = map (\<lambda>r. map (\<lambda>pos. data df ! r ! pos) positions) [0..<rows df],
                index_name = index_name df\<rparr>)"

text \<open>\<open>DataFrame::remove_rows_with_nan\<close> and \<open>remove_columns_with_nan\<close>.\<close>

definition remove_rows_with_nan :: "'i DataFrame \<Rightarrow> 'i DataFrame result" where
  "remove_rows_with_nan df =
     select_rows_by_positions
       (filter (\<lambda>r. \<not> list_ex isnan (data df ! r)) [0..<rows df]) df"

definition remove_columns_with_nan :: "'i DataFrame \<Rightarrow> 'i DataFrame result" where
  "remove_columns_with_nan df =
     select_columns_by_positions
       (filter (\<lambda>c. \<not> list_ex (\<lambda>r. isnan (data df ! r ! c)) [0..<rows df]) [0..<cols df]) df"


section \<open>Correlation and covariance\<close>

text \<open>
  The first loop of \<open>correlation_matrix\<close> and of \<open>covariance_matrix\<close>: the rows
  without a NaN in the columns \<open>0\<close> to \<open>cols() - 1\<close>.
\<close>

definition valid_rows :: "'i DataFrame \<Rightarrow> nat list" where
  "valid_rows df =
     filter (\<lambda>r. \<not> list_ex (\<lambda>c. \<not> d_eq (data df ! r ! c) (data df ! r ! c)) [0..<cols df])
       [0..<rows df]"

text \<open>
  \<open>means[c]\<close>: the sum over the valid rows, from \<open>0.0\<close>, divided by their number.
  Here and below every operation is the machine's, rounded by \<open>rnd\<close>.
\<close>

definition column_mean :: "(real \<Rightarrow> double) \<Rightarrow> 'i DataFrame \<Rightarrow> nat list \<Rightarrow> nat \<Rightarrow> double" where
  "column_mean rnd df vr c =
     r_div rnd (fold (\<lambda>r_index acc. r_add rnd acc (data df ! r_index ! c)) vr (Fin 0))
               (of_size_t (length vr))"

text \<open>The sample variance \<open>var\<close> of the loop that fills \<open>sds\<close>, and \<open>sds[c]\<close>.\<close>

definition column_var :: "(real \<Rightarrow> double) \<Rightarrow> 'i DataFrame \<Rightarrow> nat list \<Rightarrow> nat \<Rightarrow> double" where
  "column_var rnd df vr c =
     r_div rnd (fold (\<lambda>r_index accum.
                        let diff = r_sub rnd (data df ! r_index ! c) (column_mean rnd df vr c)
                        in r_add rnd accum (r_mul rnd diff diff)) vr (Fin 0))
               (of_size_t (length vr - 1))"

definition column_sd :: "(real \<Rightarrow> double) \<Rightarrow> 'i DataFrame \<Rightarrow> nat list \<Rightarrow> nat \<Rightarrow> double" where
  "column_sd rnd df vr c =
     (let var = column_var rnd df vr c in if d_gt var (Fin 0) then r_sqrt rnd var else Fin 0)"

text \<open>\<open>cov\<close> of the columns \<open>i\<close> and \<open>j\<close>.\<close>

definition column_cov ::
  "(real \<Rightarrow> double) \<Rightarrow> 'i DataFrame \<Rightarrow> nat list \<Rightarrow> nat \<Rightarrow> nat \<Rightarrow> double" where
  "column_cov rnd df vr i j =
     r_div rnd (fold (\<lambda>r_index accum.
                        r_add rnd accum
                          (r_mul rnd (r_sub rnd (data df ! r_index ! i) (column_mean rnd df vr i))
                                     (r_sub rnd (data df ! r_index ! j) (column_mean rnd df vr j))))
                     vr (Fin 0))
               (of_size_t (length vr - 1))"

definition correlation_matrix :: "(real \<Rightarrow> double) \<Rightarrow> 'i DataFrame \<Rightarrow> string DataFrame result" where
  "correlation_matrix rnd df =
     (if columns df = [] then Inl ''dataframe::correlation_matrix: no columns''
      else if rows df < 2 then Inl ''dataframe::correlation_matrix: need at least two rows''
      else
        let vr = valid_rows df in
        if length vr < 2
        then Inl ''dataframe::correlation_matrix: need at least two non-NaN rows''
        else Inr \<lparr>columns = columns df, index = columns df,
                  data = map (\<lambda>i. map (\<lambda>j.
                           if i = j then Fin 1
                           else if d_le (column_sd rnd df vr i) (Fin 0) \<or>
                                   d_le (column_sd rnd df vr j) (Fin 0)
                           then NaN
                           else r_div rnd (column_cov rnd df vr i j)
                                  (r_mul rnd (column_sd rnd df vr i) (column_sd rnd df vr j)))
                         [0..<cols df]) [0..<cols df],
                  index_name = ''column''\<rparr>)"

definition covariance_matrix :: "(real \<Rightarrow> double) \<Rightarrow> 'i DataFrame \<Rightarrow> string DataFrame result" where
  "covariance_matrix rnd df =
     (if columns df = [] then Inl ''dataframe::covariance_matrix: no columns''
      else if rows df < 2 then Inl ''dataframe::covariance_matrix: need at least two rows''
      else
        let vr = valid_rows df in
        if length vr < 2
        then Inl ''dataframe::covariance_matrix: need at least two non-NaN rows''
        else Inr \<lparr>columns = columns df, index = columns df,
                  data = map (\<lambda>i. map (\<lambda>j. column_cov rnd df vr i j) [0..<cols df])
                           [0..<cols df],
                  index_name = ''column''\<rparr>)"


section \<open>Text codec: decoding\<close>

text \<open>\<open>std::isspace\<close> in the C locale, and \<open>detail::trim\<close>.\<close>

definition isspace :: "char \<Rightarrow> bool" where
  "isspace ch = (ch \<in> set [CHR '' '', CHR 0x09, CHR 0x0A, CHR 0x0B, CHR 0x0C, CHR 0x0D])"

definition trim :: "string \<Rightarrow> string" where
  "trim s = rev (dropWhile isspace (rev (dropWhile isspace s)))"

text \<open>
  \<open>std::getline(stream, line, delim)\<close> on the rest \<open>s\<close> of a stream: it fails when
  nothing is left, and otherwise returns the characters before the first
  delimiter and the rest of the stream after that delimiter.
\<close>

definition getline :: "char \<Rightarrow> string \<Rightarrow> (string \<times> string) option" where
  "getline delim s =
     (if s = [] then None
      else Some (takeWhile (\<lambda>ch. ch \<noteq> delim) s, drop 1 (dropWhile (\<lambda>ch. ch \<noteq> delim) s)))"

text \<open>The loop \<open>while (std::getline(stream, x, delim)) ...\<close>: all the pieces it reads.\<close>

function getlines :: "char \<Rightarrow> string \<Rightarrow> string list" where
  "getlines delim s =
     (case getline delim s of
        None \<Rightarrow> []
      | Some (x, rest) \<Rightarrow> x # getlines delim rest)"
  by pat_completeness auto
termination
proof (relation "measure (\<lambda>(delim, s). length s)")
  fix delim :: char and s x2 x rest
  assume "getline delim s = Some x2" "(x, rest) = x2"
  then have "s \<noteq> []" "rest = drop 1 (dropWhile (\<lambda>ch. ch \<noteq> delim) s)"
    by (auto simp: getline_def split: if_splits)
  moreover have "length (dropWhile (\<lambda>ch. ch \<noteq> delim) s) \<le> length s"
    by (rule length_dropWhile_le)
  ultimately show "((delim, rest), (delim, s)) \<in> measure (\<lambda>(delim, s). length s)"
    by (cases s) auto
qed simp

text \<open>\<open>detail::split_csv\<close>.\<close>

definition split_csv :: "string \<Rightarrow> string list" where
  "split_csv line =
     map trim (getlines (CHR '','') line) @
     (if line \<noteq> [] \<and> last line = CHR '','' then [[]] else [])"

text \<open>
  The body of the loop over the data lines of \<open>from_csv\<close>, for a line that is not
  blank: the new index value and the new row, or the exception. The parameters
  stand for what the source takes from outside the repository or from the index
  type: \<open>parse_token\<close> is \<open>detail::parse_token<IndexT>\<close> (\<open>None\<close> when it throws),
  \<open>auto_index\<close> is the conversion \<open>static_cast<IndexT>(std::size_t)\<close> when the index
  type has one, and \<open>stod\<close> is \<open>std::stod\<close> (\<open>None\<close> when it throws).
\<close>

definition parse_row ::
  "(string \<Rightarrow> 'i option) \<Rightarrow> (nat \<Rightarrow> 'i) option \<Rightarrow> (string \<Rightarrow> double option) \<Rightarrow> bool \<Rightarrow>
   'i DataFrame \<Rightarrow> string \<Rightarrow> ('i \<times> double list) result" where
  "parse_row parse_token auto_index stod has_index df line =
     (let fields = split_csv line;
          expected = length (columns df) + (if has_index then 1 else 0)
      in if length fields \<noteq> expected
         then Inl ''dataframe::from_csv: row has unexpected number of columns''
         else
           (case (if has_index
                  then (case parse_token (fields ! 0) of
                          None \<Rightarrow> Inl ''dataframe::from_csv: invalid index value''
                        | Some idx \<Rightarrow> Inr (idx, 1))
                  else (case auto_index of
                          None \<Rightarrow> Inl ''dataframe::from_csv: index type cannot be auto-generated''
                        | Some conv \<Rightarrow> Inr (conv (length (index df)), 0))) of
              Inl e \<Rightarrow> Inl e
            | Inr (idx, offset) \<Rightarrow>
                (case map_result
                        (\<lambda>c. let token = fields ! (c + offset) in
                             if token = [] then Inr NaN
                             else (case stod token of
                                     None \<Rightarrow> Inl ''dataframe::from_csv: invalid numeric value''
                                   | Some v \<Rightarrow> Inr v))
                        [0..<length (columns df)] of
                   Inl e \<Rightarrow> Inl e
                 | Inr row \<Rightarrow> Inr (idx, row))))"

text \<open>The loop over the lines after the header; blank lines are skipped.\<close>

fun read_rows ::
  "(string \<Rightarrow> 'i option) \<Rightarrow> (nat \<Rightarrow> 'i) option \<Rightarrow> (string \<Rightarrow> double option) \<Rightarrow> bool \<Rightarrow>
   'i DataFrame \<Rightarrow> string list \<Rightarrow> 'i DataFrame result" where
  "read_rows parse_token auto_index stod has_index df [] = Inr df"
| "read_rows parse_token auto_index stod has_index df (line # rest) =
     (if trim line = [] then read_rows parse_token auto_index stod has_index df rest
      else
        (case parse_row parse_token auto_index stod has_index df line of
           Inl e \<Rightarrow> Inl e
         | Inr (idx, row) \<Rightarrow>
             read_rows parse_token auto_index stod has_index
               (df\<lparr>index := index df @ [idx], data := data df @ [row]\<rparr>) rest))"

text \<open>\<open>DataFrame::from_csv\<close> on the content \<open>input\<close> of the stream.\<close>

definition from_csv ::
  "(string \<Rightarrow> 'i option) \<Rightarrow> (nat \<Rightarrow> 'i) option \<Rightarrow> (string \<Rightarrow> double option) \<Rightarrow>
   string \<Rightarrow> bool \<Rightarrow> 'i DataFrame result" where
  "from_csv parse_token auto_index stod input has_index =
     (case getlines (CHR 0x0A) input of
        [] \<Rightarrow> Inl ''dataframe::from_csv: missing header row''
      | header # lines \<Rightarrow>
          let header_fields = split_csv header;
              start_col = (if has_index then 1 else 0 :: nat)
          in if header_fields = [] then Inl ''dataframe::from_csv: header has no columns''
             else if has_index \<and> length header_fields < 2
             then Inl ''dataframe::from_csv: need at least one data column when reading indices''
             else
               let df = \<lparr>columns = drop start_col header_fields, index = [], data = [],
                         index_name = (if has_index then header_fields ! 0 else ''index'')\<rparr>
               in if columns df = [] then Inl ''dataframe::from_csv: no data columns found''
                  else read_rows parse_token auto_index stod has_index df lines)"


section \<open>Construction from vectors\<close>

text \<open>\<open>DataFrame::from_vectors\<close>.\<close>

definition from_vectors :: "'i list \<Rightarrow> string list \<Rightarrow> double list list \<Rightarrow> 'i DataFrame result" where
  "from_vectors indices column_names cells =
     (if column_names = [] then Inl ''dataframe::from_vectors: no columns provided''
      else if length indices \<noteq> length cells
      then Inl ''dataframe::from_vectors: index count must match row count''
      else if \<exists>name \<in> set column_names. name = []
      then Inl ''dataframe::from_vectors: column name cannot be empty''
      else if \<exists>row \<in> set cells. length row \<noteq> length column_names
      then Inl ''dataframe::from_vectors: row size does not match column count''
      else Inr \<lparr>columns = column_names, index = indices, data = cells, index_name = ''index''\<rparr>)"


section \<open>Binary codec: decoding\<close>

text \<open>
  A binary stream is the sequence of its bytes, a byte being a \<open>char\<close>.
  \<open>istream::read\<close> of \<open>n\<close> bytes from the rest \<open>s\<close> of a stream fails when fewer
  than \<open>n\<close> bytes are left.
\<close>

definition read_bytes :: "nat \<Rightarrow> string \<Rightarrow> (string \<times> string) option" where
  "read_bytes n s = (if length s < n then None else Some (take n s, drop n s))"

text \<open>
  The object representation of a \<open>std::uint64_t\<close>: eight bytes, the least
  significant one first.
\<close>

definition u64_of_bytes :: "string \<Rightarrow> 64 word" where
  "u64_of_bytes s = word_rcat (rev (map of_char s :: 8 word list))"

text \<open>\<open>detail::read_pod<std::uint64_t>\<close>.\<close>

definition read_u64 :: "string \<Rightarrow> (64 word \<times> string) result" where
  "read_u64 s =
     (case read_bytes 8 s of
        None \<Rightarrow> Inl ''dataframe::binary_read: failed to read data''
      | Some (bytes, rest) \<Rightarrow> Inr (u64_of_bytes bytes, rest))"

text \<open>
  \<open>detail::read_pod<double>\<close>. \<open>double_of_bits\<close> is the value of a \<open>double\<close> with a
  given IEEE-754 bit pattern.
\<close>

definition read_double :: "(64 word \<Rightarrow> double) \<Rightarrow> string \<Rightarrow> (double \<times> string) result" where
  "read_double double_of_bits s =
     (case read_u64 s of
        Inl e \<Rightarrow> Inl e
      | Inr (bits, rest) \<Rightarrow> Inr (double_of_bits bits, rest))"

text \<open>
  \<open>detail::read_string\<close>, with a \<open>std::size_t\<close> of 64 bits: no length is too large
  for it.
\<close>

definition read_string :: "string \<Rightarrow> (string \<times> string) result" where
  "read_string s =
     (case read_u64 s of
        Inl e \<Rightarrow> Inl e
      | Inr (len, rest) \<Rightarrow>
          if len = 0 then Inr ([], rest)
          else (case read_bytes (unat len) rest of
                  None \<Rightarrow> Inl ''dataframe::binary_read: failed to read string''
                | Some (v, rest') \<Rightarrow> Inr (v, rest')))"

text \<open>A loop that reads \<open>n\<close> values one after the other with \<open>rd\<close>.\<close>

primrec read_many :: "(string \<Rightarrow> ('a \<times> string) result) \<Rightarrow> nat \<Rightarrow> string \<Rightarrow> ('a list \<times> string) result" where
  "read_many rd 0 s = Inr ([], s)"
| "read_many rd (Suc n) s =
     (case rd s of
        Inl e \<Rightarrow> Inl e
      | Inr (x, rest) \<Rightarrow>
          (case read_many rd n rest of
             Inl e \<Rightarrow> Inl e
           | Inr (xs, rest') \<Rightarrow> Inr (x # xs, rest')))"

text \<open>
  \<open>DataFrame::from_binary\<close> on the content \<open>input\<close> of the stream.
  \<open>read_index_value\<close> is \<open>detail::read_index_value<IndexT>\<close>.
\<close>

definition from_binary ::
  "(64 word \<Rightarrow> double) \<Rightarrow> (string \<Rightarrow> ('i \<times> string) result) \<Rightarrow> string \<Rightarrow> 'i DataFrame result" where
  "from_binary double_of_bits read_index_value input =
     (case read_bytes 6 input of
        None \<Rightarrow> Inl ''dataframe::from_binary: invalid file header''
      | Some (magic, s1) \<Rightarrow>
          if magic \<noteq> ''DFBIN1'' then Inl ''dataframe::from_binary: invalid file header''
          else
            (case read_u64 s1 of Inl e \<Rightarrow> Inl e | Inr (row_count, s2) \<Rightarrow>
            (case read_u64 s2 of Inl e \<Rightarrow> Inl e | Inr (col_count, s3) \<Rightarrow>
            (case read_string s3 of Inl e \<Rightarrow> Inl e | Inr (name, s4) \<Rightarrow>
            (case read_u64 s4 of Inl e \<Rightarrow> Inl e | Inr (column_names, s5) \<Rightarrow>
               if column_names \<noteq> col_count
               then Inl ''dataframe::from_binary: column metadata mismatch''
               else
                 (case read_many read_string (unat col_count) s5 of
                    Inl e \<Rightarrow> Inl e | Inr (names, s6) \<Rightarrow>
                 (case read_many read_index_value (unat row_count) s6 of
                    Inl e \<Rightarrow> Inl e | Inr (indices, s7) \<Rightarrow>
                 (case read_many (read_many (read_double double_of_bits) (unat col_count))
                         (unat row_count) s7 of
                    Inl e \<Rightarrow> Inl e
                  | Inr (cells, s8) \<Rightarrow>
                      Inr \<lparr>columns = names, index = indices, data = cells,
                           index_name = name\<rparr>))))))))"


section \<open>Synthetic tables\<close>

text \<open>
  \<open>DataFrame::random_normal\<close> and \<open>random_uniform\<close>, for an integral index type.
  \<open>index_max\<close> is \<open>std::numeric_limits<IndexT>::max()\<close>, \<open>of_row\<close> is the conversion
  \<open>static_cast<IndexT>(row)\<close>, and \<open>draws k\<close> is the value that the call number \<open>k\<close>
  of \<open>dist(rng)\<close> returns: the generator and the distribution (which the mean,
  the standard deviation and the seed determine) belong to the standard library.
\<close>

definition random_normal ::
  "nat \<Rightarrow> (nat \<Rightarrow> 'i) \<Rightarrow> (real \<Rightarrow> double) \<Rightarrow> (nat \<Rightarrow> double) \<Rightarrow>
   nat \<Rightarrow> string list \<Rightarrow> double \<Rightarrow> double \<Rightarrow> double \<Rightarrow> 'i DataFrame result" where
  "random_normal index_max of_row rnd draws row_count column_names mean stddev target_corr =
     (if column_names = [] then Inl ''random_normal: at least one column is required''
      else if d_le stddev (Fin 0) then Inl ''random_normal: standard deviation must be positive''
      else if d_lt target_corr (Fin 0) \<or> d_gt target_corr (Fin 1)
      then Inl ''random_normal: target correlation must be in [0, 1]''
      else if row_count > index_max then Inl ''random_normal: row count exceeds index capacity''
      else
        let n = length column_names in
        if n \<le> 1 \<or> d_eq target_corr (Fin 0)
        then Inr \<lparr>columns = column_names, index = map of_row [0..<row_count],
                  data = map (\<lambda>row. map (\<lambda>col. draws (row * n + col)) [0..<n]) [0..<row_count],
                  index_name = ''index''\<rparr>
        else
          let coeff1 = r_sqrt rnd target_corr;
              coeff2 = r_sqrt rnd (r_sub rnd (Fin 1) target_corr)
          in Inr \<lparr>columns = column_names, index = map of_row [0..<row_count],
                   data = map (\<lambda>row.
                            let common = draws (row * n) in
                            fold (\<lambda>col row_values.
                                    row_values[col := r_add rnd (r_mul rnd coeff1 common)
                                                        (r_mul rnd coeff2 (draws (row * n + col)))])
                              [1..<n] ((replicate n (Fin 0))[0 := common]))
                          [0..<row_count],
                   index_name = ''index''\<rparr>)"

definition random_uniform ::
  "nat \<Rightarrow> (nat \<Rightarrow> 'i) \<Rightarrow> (nat \<Rightarrow> double) \<Rightarrow>
   nat \<Rightarrow> string list \<Rightarrow> double \<Rightarrow> double \<Rightarrow> 'i DataFrame result" where
  "random_uniform index_max of_row draws row_count column_names min_value max_value =
     (if column_names = [] then Inl ''random_uniform: at least one column is required''
      else if d_ge min_value max_value then Inl ''random_uniform: min must be less than max''
      else if row_count > index_max then Inl ''random_uniform: row count exceeds index capacity''
      else
        let n = length column_names in
        Inr \<lparr>columns = column_names, index = map of_row [0..<row_count],
             data = map (\<lambda>row. map (\<lambda>col. draws (row * n + col)) [0..<n]) [0..<row_count],
             index_name = ''index''\<rparr>)"


section \<open>Further elementwise transforms\<close>

text \<open>
  \<open>DataFrame::exp_elements\<close>, \<open>power\<close> and \<open>power_int\<close>. \<open>std_exp\<close> and \<open>std_pow\<close> are
  \<open>std::exp\<close> and \<open>std::pow\<close> of the C library; \<open>std::pow(v, exponent)\<close> with an
  \<open>int\<close> exponent converts the exponent to \<open>double\<close>.
\<close>

definition exp_elements :: "(double \<Rightarrow> double) \<Rightarrow> 'i DataFrame \<Rightarrow> 'i DataFrame result" where
  "exp_elements std_exp df = apply_unary (\<lambda>v. Inr (std_exp v)) ''exp_elements'' df"

definition power :: "(double \<Rightarrow> double \<Rightarrow> double) \<Rightarrow> double \<Rightarrow> 'i DataFrame \<Rightarrow> 'i DataFrame result" where
  "power std_pow exponent df = apply_unary (\<lambda>v. Inr (std_pow v exponent)) ''power'' df"

definition power_int :: "(double \<Rightarrow> double \<Rightarrow> double) \<Rightarrow> int \<Rightarrow> 'i DataFrame \<Rightarrow> 'i DataFrame result" where
  "power_int std_pow exponent df =
     apply_unary (\<lambda>v. Inr (std_pow v (Fin (of_int exponent)))) ''power_int'' df"

text \<open>
  \<open>DataFrame::standardize\<close>. The first loop of the source, which sums every
  cell into \<open>means\<close>, has no effect: \<open>means\<close> is reset to zero before it is read.
  \<open>means[c]\<close> and \<open>sds[c]\<close> are computed from the non-missing values of column
  \<open>c\<close> in row order.
\<close>

definition standardize_mean :: "(real \<Rightarrow> double) \<Rightarrow> double list \<Rightarrow> double" where
  "standardize_mean rnd vals =
     (if length vals > 0
      then r_div rnd (fold (\<lambda>v acc. r_add rnd acc v) vals (Fin 0)) (of_size_t (length vals))
      else NaN)"

definition standardize_sd :: "(real \<Rightarrow> double) \<Rightarrow> double list \<Rightarrow> double" where
  "standardize_sd rnd vals =
     (if length vals > 1
      then
        let accum = fold (\<lambda>v accum.
                            let diff = r_sub rnd v (standardize_mean rnd vals)
                            in r_add rnd accum (r_mul rnd diff diff)) vals (Fin 0);
            var = r_div rnd accum (of_size_t (length vals - 1))
        in if d_gt var (Fin 0) then r_sqrt rnd var else NaN
      else NaN)"

definition standardize :: "(real \<Rightarrow> double) \<Rightarrow> 'i DataFrame \<Rightarrow> 'i DataFrame result" where
  "standardize rnd df =
     (if rows df = 0 \<or> cols df = 0
      then Inr \<lparr>columns = columns df, index = index df,
                data = replicate (rows df) (replicate (cols df) (Fin 0)),
                index_name = index_name df\<rparr>
      else
        Inr \<lparr>columns = columns df, index = index df,
             data = map (\<lambda>r. map (\<lambda>c.
                      let val = data df ! r ! c;
                          m = standardize_mean rnd (column_values df c);
                          sd = standardize_sd rnd (column_values df c)
                      in if \<not> d_eq val val \<or> \<not> d_eq m m \<or> \<not> d_eq sd sd \<or> d_eq sd (Fin 0)
                         then NaN
                         else r_div rnd (r_sub rnd val m) sd)
                    [0..<cols df]) [0..<rows df],
             index_name = index_name df\<rparr>)"

text \<open>
  \<open>DataFrame::normalize\<close>. \<open>std::min(a, b)\<close> is \<open>b\<close> when \<open>b < a\<close> and \<open>a\<close>
  otherwise; \<open>std::max(a, b)\<close> is \<open>b\<close> when \<open>a < b\<close> and \<open>a\<close> otherwise.
\<close>

definition std_min :: "double \<Rightarrow> double \<Rightarrow> double" where
  "std_min a b = (if d_lt b a then b else a)"

definition std_max :: "double \<Rightarrow> double \<Rightarrow> double" where
  "std_max a b = (if d_lt a b then b else a)"

definition normalize :: "(real \<Rightarrow> double) \<Rightarrow> 'i DataFrame \<Rightarrow> 'i DataFrame result" where
  "normalize rnd df =
     (if rows df = 0 \<or> cols df = 0
      then Inr \<lparr>columns = columns df, index = index df,
                data = replicate (rows df) (replicate (cols df) (Fin 0)),
                index_name = index_name df\<rparr>
      else
        Inr \<lparr>columns = columns df, index = index df,
             data = map (\<lambda>r. map (\<lambda>c.
                      let v = data df ! r ! c;
                          mn = fold (\<lambda>v m. std_min m v) (column_values df c) PInf;
                          mx = fold (\<lambda>v m. std_max m v) (column_values df c) NInf
                      in if \<not> d_eq v v then NaN
                         else if \<not> isfinite mn \<or> \<not> isfinite mx then NaN
                         else
                           let spread = r_sub rnd mx mn
                           in if d_gt spread (Fin 0) then r_div rnd (r_sub rnd v mn) spread
                              else Fin 0)
                    [0..<cols df]) [0..<rows df],
             index_name = index_name df\<rparr>)"


section \<open>Selection by value, by range and by count\<close>

text \<open>\<open>DataFrame::select_rows\<close> and \<open>select_columns\<close>.\<close>

definition select_rows :: "'i list \<Rightarrow> 'i DataFrame \<Rightarrow> 'i DataFrame result" where
  "select_rows vals df =
     (case map_result
             (\<lambda>v. case find (\<lambda>i. index df ! i = v) [0..<length (index df)] of
                     None \<Rightarrow> Inl ''dataframe::select_rows: requested index not found''
                   | Some i \<Rightarrow> Inr i)
             vals of
        Inl e \<Rightarrow> Inl e
      | Inr positions \<Rightarrow> select_rows_by_positions positions df)"

definition select_columns :: "string list \<Rightarrow> 'i DataFrame \<Rightarrow> 'i DataFrame result" where
  "select_columns names df =
     (case map_result (\<lambda>name. find_column_index name df) names of
        Inl e \<Rightarrow> Inl e
      | Inr positions \<Rightarrow> select_columns_by_positions positions df)"

text \<open>
  \<open>DataFrame::find_row_positions_in_range\<close> and \<open>slice_rows_range\<close>. \<open>lt\<close>, \<open>le\<close>
  and \<open>ge\<close> are the operators \<open><\<close>, \<open><=\<close> and \<open>>=\<close> of the index type.
\<close>

definition find_row_positions_in_range ::
  "('i \<Rightarrow> 'i \<Rightarrow> bool) \<Rightarrow> ('i \<Rightarrow> 'i \<Rightarrow> bool) \<Rightarrow> ('i \<Rightarrow> 'i \<Rightarrow> bool) \<Rightarrow>
   'i \<Rightarrow> 'i \<Rightarrow> bool \<Rightarrow> 'i DataFrame \<Rightarrow> nat list" where
  "find_row_positions_in_range lt le ge start end inclusive_end df =
     (if rows df = 0 then []
      else
        let lo = (if lt end start then end else start);
            hi = (if lt end start then start else end)
        in filter (\<lambda>i. ge (index df ! i) lo \<and>
                        (if inclusive_end then le (index df ! i) hi else lt (index df ! i) hi))
             [0..<length (index df)])"

definition slice_rows_range ::
  "('i \<Rightarrow> 'i \<Rightarrow> bool) \<Rightarrow> ('i \<Rightarrow> 'i \<Rightarrow> bool) \<Rightarrow> ('i \<Rightarrow> 'i \<Rightarrow> bool) \<Rightarrow>
   'i \<Rightarrow> 'i \<Rightarrow> bool \<Rightarrow> 'i DataFrame \<Rightarrow> 'i DataFrame result" where
  "slice_rows_range lt le ge start end inclusive_end df =
     select_rows_by_positions (find_row_positions_in_range lt le ge start end inclusive_end df) df"

text \<open>\<open>DataFrame::head_rows\<close>, \<open>tail_rows\<close>, \<open>head_columns\<close> and \<open>tail_columns\<close>.\<close>

definition head_rows :: "nat \<Rightarrow> 'i DataFrame \<Rightarrow> 'i DataFrame result" where
  "head_rows cnt df =
     (if cnt = 0 then select_rows_by_positions [] df
      else if cnt \<ge> rows df then Inr df
      else select_rows_by_positions [0..<cnt] df)"

definition tail_rows :: "nat \<Rightarrow> 'i DataFrame \<Rightarrow> 'i DataFrame result" where
  "tail_rows cnt df =
     (if cnt = 0 then select_rows_by_positions [] df
      else if cnt \<ge> rows df then Inr df
      else select_rows_by_positions (map (\<lambda>i. rows df - cnt + i) [0..<cnt]) df)"

definition head_columns :: "nat \<Rightarrow> 'i DataFrame \<Rightarrow> 'i DataFrame result" where
  "head_columns cnt df =
     (if cnt = 0 then select_columns_by_positions [] df
      else if cnt \<ge> cols df then Inr df
      else select_columns_by_positions [0..<cnt] df)"

definition tail_columns :: "nat \<Rightarrow> 'i DataFrame \<Rightarrow> 'i DataFrame result" where
  "tail_columns cnt df =
     (if cnt = 0 then select_columns_by_positions [] df
      else if cnt \<ge> cols df then Inr df
      else select_columns_by_positions (map (\<lambda>i. cols df - cnt + i) [0..<cnt]) df)"


section \<open>Resampling\<close>

text \<open>
  \<open>DataFrame::resample_rows\<close>. \<open>picks i\<close> is the value that the call number \<open>i\<close> of
  \<open>dist(rng)\<close> returns, a position drawn by the standard library from \<open>0\<close> to
  \<open>rows() - 1\<close>. \<open>integral\<close> is the conversion \<open>static_cast<IndexT>(i)\<close> when the
  index type is integral (\<open>std::is_integral_v<IndexT>\<close>), and \<open>None\<close> otherwise.
\<close>

definition resample_rows ::
  "(nat \<Rightarrow> 'i) option \<Rightarrow> (nat \<Rightarrow> nat) \<Rightarrow> nat \<Rightarrow> bool \<Rightarrow> 'i DataFrame \<Rightarrow> 'i DataFrame result" where
  "resample_rows integral picks sample_size reset_index df =
     (if rows df = 0 then Inl ''dataframe::resample_rows: no rows to sample''
      else
        let n = (if sample_size = 0 then rows df else sample_size) in
        Inr \<lparr>columns = columns df,
             index = map (\<lambda>i. case integral of
                                Some conv \<Rightarrow> if reset_index then conv i else index df ! picks i
                              | None \<Rightarrow> index df ! picks i) [0..<n],
             data = map (\<lambda>i. data df ! picks i) [0..<n],
             index_name = (if reset_index \<and> integral \<noteq> None then ''resample_index''
                           else index_name df)\<rparr>)"


section \<open>Rolling standard deviation, rolling RMS and moving average\<close>

text \<open>
  The body of the inner loop of \<open>DataFrame::rolling_std\<close> at row \<open>r\<close> and column
  \<open>c\<close>. The state is \<open>sums\<close> (here \<open>csums\<close>), \<open>sums_sq\<close>, \<open>valid_counts\<close> and
  \<open>out.data_\<close>; the counters are modelled as in \<open>rolling_mean_cell\<close>.
\<close>

definition rolling_std_cell ::
  "(real \<Rightarrow> double) \<Rightarrow> 'i DataFrame \<Rightarrow> nat \<Rightarrow> nat \<Rightarrow> nat \<Rightarrow>
   double list \<times> double list \<times> int list \<times> double list list \<Rightarrow>
   double list \<times> double list \<times> int list \<times> double list list" where
  "rolling_std_cell rnd df window r c st =
     (case st of (csums, sums_sq, valid_counts, out) \<Rightarrow>
        let val = data df ! r ! c;
            is_nan = \<not> d_eq val val;
            csums1 = (if \<not> is_nan then csums[c := r_add rnd (csums ! c) val] else csums);
            sq1 = (if \<not> is_nan then sums_sq[c := r_add rnd (sums_sq ! c) (r_mul rnd val val)]
                   else sums_sq);
            counts1 = (if \<not> is_nan then valid_counts[c := valid_counts ! c + 1]
                       else valid_counts);
            old = data df ! (r - window) ! c;
            old_is_nan = \<not> d_eq old old;
            csums2 = (if r \<ge> window \<and> \<not> old_is_nan
                     then csums1[c := r_sub rnd (csums1 ! c) old] else csums1);
            sq2 = (if r \<ge> window \<and> \<not> old_is_nan
                   then sq1[c := r_sub rnd (sq1 ! c) (r_mul rnd old old)] else sq1);
            counts2 = (if r \<ge> window \<and> \<not> old_is_nan
                       then counts1[c := counts1 ! c - 1] else counts1);
            res = (if counts2 ! c = int_of_size_t window
                   then (if window = 1 then Fin 0
                         else
                           let mean = r_div rnd (csums2 ! c) (of_size_t window);
                               numerator = r_sub rnd (sq2 ! c) (r_mul rnd (csums2 ! c) mean);
                               variance0 = r_div rnd numerator (of_size_t (window - 1));
                               variance = (if d_lt variance0 (Fin 0) \<and>
                                              d_gt variance0 (Fin (- (1 / 10 ^ 12)))
                                           then Fin 0 else variance0)
                           in if d_gt variance (Fin 0) then r_sqrt rnd variance else Fin 0)
                   else NaN);
            out1 = (if r + 1 \<ge> window
                    then out[r + 1 - window := (out ! (r + 1 - window))[c := res]]
                    else out)
        in (csums2, sq2, counts2, out1))"

definition rolling_std :: "(real \<Rightarrow> double) \<Rightarrow> nat \<Rightarrow> 'i DataFrame \<Rightarrow> 'i DataFrame result" where
  "rolling_std rnd window df =
     (if window = 0 then Inl ''dataframe::rolling_std: window must be positive''
      else if window > rows df then Inl ''dataframe::rolling_std: window exceeds row count''
      else
        let out0 = replicate (rows df - window + 1) (replicate (cols df) (Fin 0));
            st = fold (\<lambda>r. fold (rolling_std_cell rnd df window r) [0..<cols df]) [0..<rows df]
                   (replicate (cols df) (Fin 0), replicate (cols df) (Fin 0),
                    replicate (cols df) 0, out0)
        in Inr \<lparr>columns = columns df, index = drop (window - 1) (index df),
                  data = snd (snd (snd st)), index_name = index_name df\<rparr>)"

text \<open>The same for \<open>DataFrame::rolling_rms\<close>, whose state has no \<open>sums\<close>.\<close>

definition rolling_rms_cell ::
  "(real \<Rightarrow> double) \<Rightarrow> 'i DataFrame \<Rightarrow> nat \<Rightarrow> nat \<Rightarrow> nat \<Rightarrow>
   double list \<times> int list \<times> double list list \<Rightarrow> double list \<times> int list \<times> double list list" where
  "rolling_rms_cell rnd df window r c st =
     (case st of (sums_sq, valid_counts, out) \<Rightarrow>
        let val = data df ! r ! c;
            sq1 = (if d_eq val val then sums_sq[c := r_add rnd (sums_sq ! c) (r_mul rnd val val)]
                   else sums_sq);
            counts1 = (if d_eq val val then valid_counts[c := valid_counts ! c + 1]
                       else valid_counts);
            old = data df ! (r - window) ! c;
            sq2 = (if r \<ge> window \<and> d_eq old old
                   then sq1[c := r_sub rnd (sq1 ! c) (r_mul rnd old old)] else sq1);
            counts2 = (if r \<ge> window \<and> d_eq old old
                       then counts1[c := counts1 ! c - 1] else counts1);
            out1 = (if r + 1 \<ge> window
                    then (if counts2 ! c = int_of_size_t window
                          then out[r + 1 - window :=
                                 (out ! (r + 1 - window))
                                   [c := r_sqrt rnd (r_div rnd (sq2 ! c) (of_size_t window))]]
                          else out[r + 1 - window := (out ! (r + 1 - window))[c := NaN]])
                    else out)
        in (sq2, counts2, out1))"

definition rolling_rms :: "(real \<Rightarrow> double) \<Rightarrow> nat \<Rightarrow> 'i DataFrame \<Rightarrow> 'i DataFrame result" where
  "rolling_rms rnd window df =
     (if window = 0 then Inl ''dataframe::rolling_rms: window must be positive''
      else if window > rows df then Inl ''dataframe::rolling_rms: window exceeds row count''
      else
        let out0 = replicate (rows df - window + 1) (replicate (cols df) (Fin 0)) in
        if cols df = 0
        then Inr \<lparr>columns = columns df, index = drop (window - 1) (index df),
                  data = out0, index_name = index_name df\<rparr>
        else
          let st = fold (\<lambda>r. fold (rolling_rms_cell rnd df window r) [0..<cols df]) [0..<rows df]
                     (replicate (cols df) (Fin 0), replicate (cols df) 0, out0)
          in Inr \<lparr>columns = columns df, index = drop (window - 1) (index df),
                    data = snd (snd st), index_name = index_name df\<rparr>)"

text \<open>
  \<open>DataFrame::exponential_moving_average\<close>. \<open>ema_column\<close> is the loop over the rows
  of one column: \<open>ema\<close> and \<open>has_ema\<close> are the loop's variables, and the result is
  the column of the output.
\<close>

fun ema_column :: "(real \<Rightarrow> double) \<Rightarrow> double \<Rightarrow> double \<Rightarrow> bool \<Rightarrow> double list \<Rightarrow> double list" where
  "ema_column rnd alpha ema has_ema [] = []"
| "ema_column rnd alpha ema has_ema (val # rest) =
     (if \<not> d_eq val val then NaN # ema_column rnd alpha ema has_ema rest
      else
        let ema1 = (if \<not> has_ema then val
                    else r_add rnd (r_mul rnd alpha val)
                           (r_mul rnd (r_sub rnd (Fin 1) alpha) ema))
        in ema1 # ema_column rnd alpha ema1 True rest)"

definition exponential_moving_average ::
  "(real \<Rightarrow> double) \<Rightarrow> double \<Rightarrow> 'i DataFrame \<Rightarrow> 'i DataFrame result" where
  "exponential_moving_average rnd alpha df =
     (if \<not> d_gt alpha (Fin 0) \<or> \<not> d_lt alpha (Fin 1)
      then Inl ''dataframe::exponential_moving_average: alpha must be in (0,1)''
      else if rows df = 0 \<or> cols df = 0
      then Inr \<lparr>columns = columns df, index = index df,
                data = replicate (rows df) (replicate (cols df) NaN),
                index_name = index_name df\<rparr>
      else
        Inr \<lparr>columns = columns df, index = index df,
             data = map (\<lambda>r. map (\<lambda>c.
                      ema_column rnd alpha NaN False (map (\<lambda>r. data df ! r ! c) [0..<rows df]) ! r)
                    [0..<cols df]) [0..<rows df],
             index_name = index_name df\<rparr>)"


section \<open>Summary statistics\<close>

text \<open>
  \<open>stats::mean\<close>, \<open>stats::stdev\<close>, \<open>stats::skew\<close> and \<open>stats::excess_kurtosis\<close> of
  \<open>stats.cpp\<close>, with the machine's operations in the order of the code.
  \<open>std_pow\<close> is \<open>std::pow\<close>.
\<close>

definition stats_mean :: "(real \<Rightarrow> double) \<Rightarrow> double list \<Rightarrow> double" where
  "stats_mean rnd x =
     (if length x = 0 then NaN
      else r_div rnd (fold (\<lambda>v s. r_add rnd s v) x (Fin 0)) (of_size_t (length x)))"

definition stats_stdev :: "(real \<Rightarrow> double) \<Rightarrow> double list \<Rightarrow> double" where
  "stats_stdev rnd x =
     (if length x \<le> 1 then NaN
      else
        let m = stats_mean rnd x;
            ss = fold (\<lambda>xi ss. let d = r_sub rnd xi m in r_add rnd ss (r_mul rnd d d)) x (Fin 0);
            v = r_div rnd ss (of_size_t (length x - 1))
        in if \<not> d_ge v (Fin 0) then NaN else r_sqrt rnd v)"

definition stats_skew ::
  "(real \<Rightarrow> double) \<Rightarrow> (double \<Rightarrow> double \<Rightarrow> double) \<Rightarrow> double list \<Rightarrow> double" where
  "stats_skew rnd std_pow x =
     (if length x \<le> 2 then NaN
      else
        let m = stats_mean rnd x;
            (m2, m3) = fold (\<lambda>xi (m2, m3).
                               let d = r_sub rnd xi m; d2 = r_mul rnd d d
                               in (r_add rnd m2 d2, r_add rnd m3 (r_mul rnd d2 d)))
                         x (Fin 0, Fin 0);
            m2 = r_div rnd m2 (of_size_t (length x));
            m3 = r_div rnd m3 (of_size_t (length x))
        in if \<not> d_gt m2 (Fin 0) then NaN else r_div rnd m3 (std_pow m2 (Fin (3 / 2))))"

definition stats_excess_kurtosis :: "(real \<Rightarrow> double) \<Rightarrow> double list \<Rightarrow> double" where
  "stats_excess_kurtosis rnd x =
     (if length x \<le> 3 then NaN
      else
        let m = stats_mean rnd x;
            (m2, m4) = fold (\<lambda>xi (m2, m4).
                               let d = r_sub rnd xi m; d2 = r_mul rnd d d
                               in (r_add rnd m2 d2, r_add rnd m4 (r_mul rnd d2 d2)))
                         x (Fin 0, Fin 0);
            m2 = r_div rnd m2 (of_size_t (length x));
            m4 = r_div rnd m4 (of_size_t (length x))
        in if \<not> d_gt m2 (Fin 0) then NaN
           else r_sub rnd (r_div rnd m4 (r_mul rnd m2 m2)) (Fin 3))"

text \<open>The struct \<open>stats::SummaryStats\<close> and \<open>stats::summary_stats\<close>.\<close>

record SummaryStats =
  stat_n :: int
  stat_mean :: double
  stat_sd :: double
  stat_skew :: double
  stat_ex_kurtosis :: double
  stat_min :: double
  stat_max :: double

definition summary_stats ::
  "(real \<Rightarrow> double) \<Rightarrow> (double \<Rightarrow> double \<Rightarrow> double) \<Rightarrow> double list \<Rightarrow> SummaryStats" where
  "summary_stats rnd std_pow x =
     (let filtered = filter (\<lambda>v. d_eq v v) x in
      if length filtered = 0
      then \<lparr>stat_n = 0, stat_mean = NaN, stat_sd = NaN, stat_skew = NaN,
            stat_ex_kurtosis = NaN, stat_min = NaN, stat_max = NaN\<rparr>
      else \<lparr>stat_n = int (length filtered),
            stat_mean = stats_mean rnd filtered,
            stat_sd = stats_stdev rnd filtered,
            stat_skew = stats_skew rnd std_pow filtered,
            stat_ex_kurtosis = stats_excess_kurtosis rnd filtered,
            stat_min = fold (\<lambda>v mn. if d_lt v mn then v else mn) (tl filtered) (hd filtered),
            stat_max = fold (\<lambda>v mx. if d_gt v mx then v else mx) (tl filtered) (hd filtered)\<rparr>)"

text \<open>
  \<open>detail::compute_median\<close>. After \<open>std::nth_element\<close> the element at \<open>mid\<close> is the
  one that a sort would put there, and the largest element before \<open>mid\<close> is the
  one that a sort would put at \<open>mid - 1\<close>; the values are sorted with
  \<open>stable_sort\<close>.
\<close>

definition compute_median :: "(real \<Rightarrow> double) \<Rightarrow> double list \<Rightarrow> double" where
  "compute_median rnd vals =
     (if vals = [] then NaN
      else
        let mid = length vals div 2;
            sorted_vals = stable_sort d_lt vals;
            median = sorted_vals ! mid
        in if length vals mod 2 = 0
           then r_mul rnd (Fin (1 / 2)) (r_add rnd median (sorted_vals ! (mid - 1)))
           else median)"

text \<open>\<open>DataFrame::column_stats_dataframe\<close>.\<close>

definition column_stats_dataframe ::
  "(real \<Rightarrow> double) \<Rightarrow> (double \<Rightarrow> double \<Rightarrow> double) \<Rightarrow> 'i DataFrame \<Rightarrow> string DataFrame result" where
  "column_stats_dataframe rnd std_pow df =
     (let labels = [''n'', ''median'', ''mean'', ''sd'', ''skew'', ''ex_kurtosis'', ''min'', ''max''];
          summary = (\<lambda>c. summary_stats rnd std_pow (column_values df c))
      in Inr \<lparr>columns = columns df, index = labels,
               data = map (\<lambda>f. map f [0..<cols df])
                        [\<lambda>c. rounded rnd (Fin (of_int (stat_n (summary c)))),
                         \<lambda>c. compute_median rnd (column_values df c),
                         \<lambda>c. stat_mean (summary c),
                         \<lambda>c. stat_sd (summary c),
                         \<lambda>c. stat_skew (summary c),
                         \<lambda>c. stat_ex_kurtosis (summary c),
                         \<lambda>c. stat_min (summary c),
                         \<lambda>c. stat_max (summary c)],
               index_name = ''statistic''\<rparr>)"


section \<open>Rank correlations\<close>

text \<open>
  The ranking loop of \<open>DataFrame::spearman_correlation_matrix\<close> for column \<open>c\<close>:
  \<open>vals\<close> is the sorted vector \<open>values\<close> of pairs of a value and its row, \<open>i\<close> the
  loop variable and \<open>ranked\<close> the cell matrix \<open>ranked.data_\<close>. The inner loop
  advances \<open>j\<close> from \<open>i\<close> over the pairs whose value equals that of pair \<open>i\<close>. If
  it did not advance at all (which needs a value that is not equal to itself)
  the outer loop would never end: the result is then \<open>None\<close>.
\<close>

function rank_loop ::
  "(real \<Rightarrow> double) \<Rightarrow> nat \<Rightarrow> (double \<times> nat) list \<Rightarrow> nat \<Rightarrow> double list list \<Rightarrow>
   double list list option" where
  "rank_loop rnd c vals i ranked =
     (if i < length vals then
        let j = i + length (takeWhile (\<lambda>p. d_eq (fst p) (fst (vals ! i))) (drop i vals));
            rank_sum = fold (\<lambda>k s. r_add rnd s (of_size_t (k + 1))) [i..<j] (Fin 0);
            avg_rank = r_div rnd rank_sum (of_size_t (j - i));
            ranked1 = fold (\<lambda>k rk. rk[snd (vals ! k) := (rk ! snd (vals ! k))[c := avg_rank]])
                        [i..<j] ranked
        in if j = i then None else rank_loop rnd c vals j ranked1
      else Some ranked)"
  by pat_completeness auto
termination
proof (relation "measure (\<lambda>(rnd, c, vals, i, ranked). length vals - i)")
  fix vals :: "(double \<times> nat) list" and i j :: nat and rnd :: "real \<Rightarrow> double"
    and c :: nat and x xa xb :: "'a" and ranked xc :: "double list list"
  assume "i < length vals"
    and j: "j = i + length (takeWhile (\<lambda>p. d_eq (fst p) (fst (vals ! i))) (drop i vals))"
    and "j \<noteq> i"
  then have "i < j" by simp
  with \<open>i < length vals\<close>
  show "((rnd, c, vals, j, xc), (rnd, c, vals, i, ranked)) \<in>
          measure (\<lambda>(rnd, c, vals, i, ranked). length vals - i)"
    by simp
qed simp

text \<open>
  The body of the loop over the columns: the values of column \<open>c\<close> that are not
  NaN, with their rows, sorted by value and then by row (the comparator is a
  strict total order on them, so every sort returns the same sequence); the
  ranking loop; and the loop that writes NaN where the input holds NaN.
\<close>

definition rank_column ::
  "(real \<Rightarrow> double) \<Rightarrow> 'i DataFrame \<Rightarrow> nat \<Rightarrow> double list list \<Rightarrow> double list list option result" where
  "rank_column rnd df c ranked =
     (let vals = filter (\<lambda>p. d_eq (fst p) (fst p)) (map (\<lambda>r. (data df ! r ! c, r)) [0..<rows df])
      in if length vals < 2
         then Inl (''dataframe::spearman_correlation_matrix: insufficient data in column '' @
                   columns df ! c)
         else
           let sorted_vals =
                 stable_sort (\<lambda>a b. if d_eq (fst a) (fst b) then snd a < snd b
                                     else d_lt (fst a) (fst b)) vals
           in Inr (map_option
                     (\<lambda>rk. fold (\<lambda>r rk. if \<not> d_eq (data df ! r ! c) (data df ! r ! c)
                                          then rk[r := (rk ! r)[c := NaN]] else rk)
                              [0..<rows df] rk)
                     (rank_loop rnd c sorted_vals 0 ranked)))"

text \<open>The loop over the columns, which ends at the first exception.\<close>

fun rank_columns ::
  "(real \<Rightarrow> double) \<Rightarrow> 'i DataFrame \<Rightarrow> nat list \<Rightarrow> double list list \<Rightarrow> double list list option result" where
  "rank_columns rnd df [] ranked = Inr (Some ranked)"
| "rank_columns rnd df (c # cs) ranked =
     (case rank_column rnd df c ranked of
        Inl e \<Rightarrow> Inl e
      | Inr None \<Rightarrow> Inr None
      | Inr (Some ranked1) \<Rightarrow> rank_columns rnd df cs ranked1)"

text \<open>
  \<open>DataFrame::spearman_correlation_matrix\<close>: \<open>None\<close> when the ranking loop does
  not end.
\<close>

definition spearman_correlation_matrix ::
  "(real \<Rightarrow> double) \<Rightarrow> 'i DataFrame \<Rightarrow> string DataFrame result option" where
  "spearman_correlation_matrix rnd df =
     (if columns df = [] then Some (Inl ''dataframe::spearman_correlation_matrix: no columns'')
      else if rows df < 2
      then Some (Inl ''dataframe::spearman_correlation_matrix: need at least two rows'')
      else
        (case rank_columns rnd df [0..<cols df] (data df) of
           Inl e \<Rightarrow> Some (Inl e)
         | Inr None \<Rightarrow> None
         | Inr (Some ranked) \<Rightarrow> Some (correlation_matrix rnd (df\<lparr>data := ranked\<rparr>))))"

text \<open>
  \<open>DataFrame::kendall_tau_matrix\<close>. \<open>kendall_tau\<close> is the value that the loop body
  stores in \<open>out.data_[i][j]\<close> and in \<open>out.data_[j][i]\<close>, for \<open>i < j\<close>. The counters
  \<open>concordant\<close> and \<open>discordant\<close> are \<open>long long\<close>; the number of pairs of rows is
  within their range.
\<close>

definition kendall_tau :: "(real \<Rightarrow> double) \<Rightarrow> 'i DataFrame \<Rightarrow> nat \<Rightarrow> nat \<Rightarrow> double" where
  "kendall_tau rnd df i j =
     (let pairs = filter (\<lambda>(xi, xj). d_eq xi xi \<and> d_eq xj xj)
                    (map (\<lambda>r. (data df ! r ! i, data df ! r ! j)) [0..<rows df])
      in if length pairs < 2 then NaN
         else
           let (concordant, discordant) =
                 fold (\<lambda>a. fold (\<lambda>b (concordant, discordant).
                         let diff_i = r_sub rnd (fst (pairs ! a)) (fst (pairs ! b));
                             diff_j = r_sub rnd (snd (pairs ! a)) (snd (pairs ! b))
                         in if d_eq diff_i (Fin 0) \<or> d_eq diff_j (Fin 0)
                            then (concordant, discordant)
                            else if (d_gt diff_i (Fin 0) \<and> d_gt diff_j (Fin 0)) \<or>
                                    (d_lt diff_i (Fin 0) \<and> d_lt diff_j (Fin 0))
                            then (concordant + 1, discordant)
                            else (concordant, discordant + 1))
                       [a + 1..<length pairs])
                   [0..<length pairs] (0 :: int, 0 :: int);
               total = concordant + discordant
           in if total = 0 then NaN
              else r_div rnd (rounded rnd (Fin (of_int (concordant - discordant))))
                     (rounded rnd (Fin (of_int total))))"

definition kendall_tau_matrix :: "(real \<Rightarrow> double) \<Rightarrow> 'i DataFrame \<Rightarrow> string DataFrame result" where
  "kendall_tau_matrix rnd df =
     (if columns df = [] then Inl ''dataframe::kendall_tau_matrix: no columns''
      else if rows df < 2 then Inl ''dataframe::kendall_tau_matrix: need at least two rows''
      else Inr \<lparr>columns = columns df, index = columns df,
                data = map (\<lambda>i. map (\<lambda>j. if i = j then Fin 1
                                          else if i < j then kendall_tau rnd df i j
                                          else kendall_tau rnd df j i)
                                  [0..<cols df]) [0..<cols df],
                index_name = ''column''\<rparr>)"


section \<open>Auxiliary notions of the proofs\<close>

text \<open>The real number held by a finite cell (zero for the other cells).\<close>

fun fin_val :: "double \<Rightarrow> real" where
  "fin_val (Fin x) = x"
| "fin_val v = 0"

text \<open>
  What the inner loop body of \<open>rolling_mean\<close> does to the running sum and count
  of one column at row \<open>r\<close>, and the state of a column after the rows below \<open>r\<close>.
\<close>

definition col_step ::
  "(real \<Rightarrow> double) \<Rightarrow> 'i DataFrame \<Rightarrow> nat \<Rightarrow> nat \<Rightarrow> nat \<Rightarrow> double \<times> int \<Rightarrow> double \<times> int" where
  "col_step rnd df w c r st =
     (case st of (s, k) \<Rightarrow>
        let v = data df ! r ! c;
            s1 = (if v \<noteq> NaN then r_add rnd s v else s);
            k1 = (if v \<noteq> NaN then k + 1 else k);
            old = data df ! (r - w) ! c
        in if r \<ge> w \<and> old \<noteq> NaN then (r_sub rnd s1 old, k1 - 1) else (s1, k1))"

fun col_state :: "(real \<Rightarrow> double) \<Rightarrow> 'i DataFrame \<Rightarrow> nat \<Rightarrow> nat \<Rightarrow> nat \<Rightarrow> double \<times> int" where
  "col_state rnd df w c 0 = (Fin 0, 0)"
| "col_state rnd df w c (Suc r) = col_step rnd df w c r (col_state rnd df w c r)"

definition out_val :: "(real \<Rightarrow> double) \<Rightarrow> nat \<Rightarrow> double \<times> int \<Rightarrow> double" where
  "out_val rnd w st =
     (if snd st = int_of_size_t w then r_div rnd (fst st) (of_size_t w) else NaN)"

text \<open>
  The order that a stable sort by \<open>cmp\<close> puts two positions in: the smaller one
  first, and of two positions that \<open>cmp\<close> does not separate, the lower one first.
\<close>

definition precedes :: "(nat \<Rightarrow> nat \<Rightarrow> bool) \<Rightarrow> nat \<Rightarrow> nat \<Rightarrow> bool" where
  "precedes cmp a b = (cmp a b \<or> (\<not> cmp b a \<and> a < b))"

text \<open>
  What claim C7 says of the positions \<open>order\<close> of a sorted table, \<open>key\<close> giving the
  sort key of a position: a permutation of the positions, the keys that are not
  NaN in ascending (descending) order, NaN keys last (first), and positions with
  equal keys, or with two NaN keys, in their original order.
\<close>

definition stable_order :: "(nat \<Rightarrow> double) \<Rightarrow> bool \<Rightarrow> nat \<Rightarrow> nat list \<Rightarrow> bool" where
  "stable_order key ascending n order =
     (mset order = mset [0..<n] \<and>
      (\<forall>j < length order. \<forall>i < j.
         (let a = key (order ! i); b = key (order ! j) in
          (ascending \<longrightarrow> \<not> (isnan a \<and> \<not> isnan b) \<and> (\<not> isnan a \<and> \<not> isnan b \<longrightarrow> \<not> d_lt b a)) \<and>
          (\<not> ascending \<longrightarrow> \<not> (\<not> isnan a \<and> isnan b) \<and> (\<not> isnan a \<and> \<not> isnan b \<longrightarrow> \<not> d_lt a b)) \<and>
          (d_eq a b \<or> (isnan a \<and> isnan b) \<longrightarrow> order ! i < order ! j))))"


text \<open>
  The linear interpolation between the floor and ceiling order statistics of the
  sorted values \<open>s\<close> at the fractional rank \<open>x / 100 * (count - 1)\<close>.
\<close>

definition interpolate :: "double list \<Rightarrow> real \<Rightarrow> double" where
  "interpolate s x =
     (let rank = x / 100 * real (length s - 1);
          lo = s ! nat \<lfloor>rank\<rfloor>;
          hi = s ! nat \<lceil>rank\<rceil>
      in d_add lo (d_mul (Fin (rank - of_int \<lfloor>rank\<rfloor>)) (d_sub hi lo)))"







section \<open>Properties\<close>

subsection \<open>Appending a column\<close>

text \<open>
  Claim C10. \<open>add_column\<close> on a table without rows succeeds exactly when the name
  is new and the value vector is empty, and then only appends the name; on a
  table with rows it fails unless the value vector has one value per row; it
  fails on a name that is already a column; and when it succeeds the index, the
  index label, the old column names and all old cells are unchanged, while the
  column list and every row gain exactly one entry (the new name and the row's
  new value).
\<close>

theorem add_column_spec:
  "(rows df = 0 \<longrightarrow> vals \<noteq> [] \<longrightarrow> isl (add_column name vals df)) \<and>
   (rows df = 0 \<longrightarrow> vals = [] \<longrightarrow> name \<notin> set (columns df) \<longrightarrow>
      add_column name vals df = Inr (df\<lparr>columns := columns df @ [name]\<rparr>)) \<and>
   (0 < rows df \<longrightarrow> length vals \<noteq> rows df \<longrightarrow> isl (add_column name vals df)) \<and>
   (name \<in> set (columns df) \<longrightarrow> isl (add_column name vals df)) \<and>
   (add_column name vals df = Inr df' \<longrightarrow>
      index df' = index df \<and> index_name df' = index_name df \<and>
      columns df' = columns df @ [name] \<and>
      length (data df') = length (data df) \<and>
      length vals = rows df \<and>
      (\<forall>r < rows df. data df' ! r = data df ! r @ [vals ! r]))"
  by (auto simp: add_column_def rows_def split: if_splits)

theorem add_column_spec_witness:
  "add_column ''Gamma'' [Fin 10, Fin 20]
     \<lparr>columns = [''Alpha''], index = [1::int, 2], data = [[Fin 1], [NaN]], index_name = ''index''\<rparr> =
   Inr \<lparr>columns = [''Alpha'', ''Gamma''], index = [1, 2],
        data = [[Fin 1, Fin 10], [NaN, Fin 20]], index_name = ''index''\<rparr> \<and>
   isl (add_column ''Alpha'' [Fin 10, Fin 20]
     \<lparr>columns = [''Alpha''], index = [1::int, 2], data = [[Fin 1], [NaN]], index_name = ''index''\<rparr>) \<and>
   isl (add_column ''Gamma'' [Fin 10]
     \<lparr>columns = [''Alpha''], index = [1::int, 2], data = [[Fin 1], [NaN]], index_name = ''index''\<rparr>) \<and>
   isl (add_column ''Gamma'' [Fin 10]
     \<lparr>columns = [''Alpha''], index = ([]::int list), data = [], index_name = ''index''\<rparr>)"
  using add_column_spec [of "\<lparr>columns = [''Alpha''], index = [1::int, 2], data = [[Fin 1], [NaN]],
            index_name = ''index''\<rparr>" "[Fin 10, Fin 20]" "''Alpha''"]
    add_column_spec [of "\<lparr>columns = [''Alpha''], index = [1::int, 2], data = [[Fin 1], [NaN]],
            index_name = ''index''\<rparr>" "[Fin 10]" "''Gamma''"]
    add_column_spec [of "\<lparr>columns = [''Alpha''], index = ([]::int list), data = [],
            index_name = ''index''\<rparr>" "[Fin 10]" "''Gamma''"]
  by (simp add: add_column_def rows_def upt_conv_Cons)

subsection \<open>Loops that may throw\<close>

lemma map_result_Inr_map:
  "map_result f xs = Inr ys \<longleftrightarrow> map f xs = map Inr ys"
proof (induction xs arbitrary: ys)
  case Nil
  then show ?case by auto
next
  case (Cons x xs)
  show ?case
  proof (cases ys)
    case Nil
    then show ?thesis by (simp split: sum.splits)
  next
    case (Cons y ys')
    then show ?thesis using Cons.IH [of ys']
      by (auto split: sum.splits)
  qed
qed

lemma map_result_Inr_iff:
  "map_result f xs = Inr ys \<longleftrightarrow>
     length ys = length xs \<and> (\<forall>i < length xs. f (xs ! i) = Inr (ys ! i))"
  unfolding map_result_Inr_map list_eq_iff_nth_eq by auto

lemma map_result_isl_iff:
  "isl (map_result f xs) \<longleftrightarrow> (\<exists>x \<in> set xs. isl (f x))"
  by (induction xs) (auto split: sum.splits)

lemma map_result_Inl_const:
  "map_result f xs = Inl e' \<Longrightarrow> (\<And>x e. x \<in> set xs \<Longrightarrow> f x = Inl e \<Longrightarrow> e = msg) \<Longrightarrow> e' = msg"
  by (induction xs) (auto split: sum.splits)

lemma map_result_pure: "map_result (\<lambda>x. Inr (g x)) xs = Inr (map g xs)"
  by (induction xs) auto

lemma isl_case_sum_Inr [simp]:
  "isl (case r of Inl e \<Rightarrow> Inl e | Inr d \<Rightarrow> Inr (g d)) = isl r"
  by (cases r) auto

subsection \<open>Elementwise binary operations\<close>

lemma apply_binary_shape:
  "rows df \<noteq> rows other \<or> cols df \<noteq> cols other \<Longrightarrow>
   apply_binary other func name df = Inl (''dataframe::'' @ name @ '': shape mismatch'')"
  by (simp add: apply_binary_def)

lemma apply_binary_columns:
  "rows df = rows other \<Longrightarrow> cols df = cols other \<Longrightarrow> columns df \<noteq> columns other \<Longrightarrow>
   apply_binary other func name df = Inl (''dataframe::'' @ name @ '': column mismatch'')"
  by (simp add: apply_binary_def)

lemma apply_binary_index:
  "rows df = rows other \<Longrightarrow> columns df = columns other \<Longrightarrow> index df \<noteq> index other \<Longrightarrow>
   apply_binary other func name df = Inl (''dataframe::'' @ name @ '': index mismatch'')"
  by (simp add: apply_binary_def cols_def)

lemma divide_frame_zero:
  assumes "r < rows other" "c < cols other" "d_eq (data other ! r ! c) (Fin 0)"
  shows "isl (divide_frame other df)"
proof (cases "rows df = rows other \<and> cols df = cols other \<and> columns df = columns other \<and>
    index df = index other")
  case False
  then show ?thesis by (auto simp: divide_frame_def apply_binary_def)
next
  case True
  have "isl (map_result (\<lambda>r. map_result (\<lambda>c.
          if d_eq (data other ! r ! c) (Fin 0)
          then Inl ''dataframe::divide: division by zero element''
          else Inr (d_div (data df ! r ! c) (data other ! r ! c))) [0..<cols df]) [0..<rows df])"
    unfolding map_result_isl_iff using assms True
    by (intro bexI [of _ r] bexI [of _ c]) auto
  then show ?thesis using True
    by (simp add: divide_frame_def apply_binary_def)
qed

text \<open>
  Claim C5. The table overloads of add, subtract, multiply and divide fail with
  the shape error when the operands differ in row or column count (whatever the
  columns and indices are), with the column error when the shapes agree and the
  column sequences differ (whatever the indices are), and with the index error
  when shapes and columns agree and the index sequences differ. Elementwise
  divide fails when some divisor cell is zero. Scalar divide by zero fails with
  its own error for every table, whatever its cells are.
\<close>

theorem binary_combine_checks:
  "(rows df \<noteq> rows other \<or> cols df \<noteq> cols other \<longrightarrow>
      add_frame other df = Inl ''dataframe::add: shape mismatch'' \<and>
      subtract_frame other df = Inl ''dataframe::subtract: shape mismatch'' \<and>
      multiply_frame other df = Inl ''dataframe::multiply: shape mismatch'' \<and>
      divide_frame other df = Inl ''dataframe::divide: shape mismatch'') \<and>
   (rows df = rows other \<and> cols df = cols other \<and> columns df \<noteq> columns other \<longrightarrow>
      add_frame other df = Inl ''dataframe::add: column mismatch'' \<and>
      subtract_frame other df = Inl ''dataframe::subtract: column mismatch'' \<and>
      multiply_frame other df = Inl ''dataframe::multiply: column mismatch'' \<and>
      divide_frame other df = Inl ''dataframe::divide: column mismatch'') \<and>
   (rows df = rows other \<and> columns df = columns other \<and> index df \<noteq> index other \<longrightarrow>
      add_frame other df = Inl ''dataframe::add: index mismatch'' \<and>
      subtract_frame other df = Inl ''dataframe::subtract: index mismatch'' \<and>
      multiply_frame other df = Inl ''dataframe::multiply: index mismatch'' \<and>
      divide_frame other df = Inl ''dataframe::divide: index mismatch'') \<and>
   ((\<exists>r < rows other. \<exists>c < cols other. d_eq (data other ! r ! c) (Fin 0)) \<longrightarrow>
      isl (divide_frame other df)) \<and>
   (rows df = rows other \<and> columns df = columns other \<and> index df = index other \<and>
    (\<exists>r < rows other. \<exists>c < cols other. d_eq (data other ! r ! c) (Fin 0)) \<longrightarrow>
      divide_frame other df = Inl ''dataframe::divide: division by zero element'') \<and>
   divide (Fin 0) df = Inl ''dataframe::divide: division by zero''"
proof (intro conjI impI)
  assume "\<exists>r < rows other. \<exists>c < cols other. d_eq (data other ! r ! c) (Fin 0)"
  then show "isl (divide_frame other df)"
    using divide_frame_zero by blast
next
  assume a: "rows df = rows other \<and> columns df = columns other \<and> index df = index other \<and>
    (\<exists>r < rows other. \<exists>c < cols other. d_eq (data other ! r ! c) (Fin 0))"
  then have "isl (divide_frame other df)"
    using divide_frame_zero by blast
  then obtain e where e: "divide_frame other df = Inl e"
    by (cases "divide_frame other df") auto
  let ?m = "map_result (\<lambda>r. map_result (\<lambda>c.
          if d_eq (data other ! r ! c) (Fin 0)
          then Inl ''dataframe::divide: division by zero element''
          else Inr (d_div (data df ! r ! c) (data other ! r ! c))) [0..<cols df]) [0..<rows df]"
  from e a have "?m = Inl e"
    by (auto simp: divide_frame_def apply_binary_def cols_def split: sum.splits)
  then have "e = ''dataframe::divide: division by zero element''"
  proof (rule map_result_Inl_const)
    fix x e1
    assume "map_result (\<lambda>c. if d_eq (data other ! x ! c) (Fin 0)
          then Inl ''dataframe::divide: division by zero element''
          else Inr (d_div (data df ! x ! c) (data other ! x ! c))) [0..<cols df] = Inl e1"
    then show "e1 = ''dataframe::divide: division by zero element''"
      by (rule map_result_Inl_const) (auto split: if_splits)
  qed
  with e show "divide_frame other df = Inl ''dataframe::divide: division by zero element''"
    by simp
qed (simp_all add: add_frame_def subtract_frame_def multiply_frame_def divide_frame_def
      apply_binary_shape apply_binary_columns apply_binary_index divide_def d_eq_def)

theorem binary_combine_checks_witness:
  "add_frame \<lparr>columns = [''b'', ''c''], index = [7::int], data = [[Fin 1, Fin 2]], index_name = ''index''\<rparr>
      \<lparr>columns = [''a''], index = [1::int], data = [[Fin 1]], index_name = ''index''\<rparr>
     = Inl ''dataframe::add: shape mismatch'' \<and>
   multiply_frame \<lparr>columns = [''b''], index = [7::int], data = [[Fin 1]], index_name = ''index''\<rparr>
      \<lparr>columns = [''a''], index = [1::int], data = [[Fin 1]], index_name = ''index''\<rparr>
     = Inl ''dataframe::multiply: column mismatch'' \<and>
   subtract_frame \<lparr>columns = [''a''], index = [7::int], data = [[Fin 1]], index_name = ''index''\<rparr>
      \<lparr>columns = [''a''], index = [1::int], data = [[Fin 1]], index_name = ''index''\<rparr>
     = Inl ''dataframe::subtract: index mismatch'' \<and>
   divide_frame \<lparr>columns = [''a''], index = [1::int], data = [[Fin 0]], index_name = ''index''\<rparr>
      \<lparr>columns = [''a''], index = [1::int], data = [[Fin 1]], index_name = ''index''\<rparr>
     = Inl ''dataframe::divide: division by zero element''"
  using
    binary_combine_checks [of
      "\<lparr>columns = [''a''], index = [1::int], data = [[Fin 1]], index_name = ''index''\<rparr>"
      "\<lparr>columns = [''b'', ''c''], index = [7::int], data = [[Fin 1, Fin 2]], index_name = ''index''\<rparr>"]
    binary_combine_checks [of
      "\<lparr>columns = [''a''], index = [1::int], data = [[Fin 1]], index_name = ''index''\<rparr>"
      "\<lparr>columns = [''b''], index = [7::int], data = [[Fin 1]], index_name = ''index''\<rparr>"]
    binary_combine_checks [of
      "\<lparr>columns = [''a''], index = [1::int], data = [[Fin 1]], index_name = ''index''\<rparr>"
      "\<lparr>columns = [''a''], index = [7::int], data = [[Fin 1]], index_name = ''index''\<rparr>"]
    binary_combine_checks [of
      "\<lparr>columns = [''a''], index = [1::int], data = [[Fin 1]], index_name = ''index''\<rparr>"
      "\<lparr>columns = [''a''], index = [1::int], data = [[Fin 0]], index_name = ''index''\<rparr>"]
  by (simp add: rows_def cols_def d_eq_def)

subsection \<open>Logarithms and missing values\<close>

lemma log_elements_Inr_iff:
  "log_elements df = Inr out \<longleftrightarrow>
     columns out = columns df \<and> index out = index df \<and> index_name out = index_name df \<and>
     DataFrame.more out = () \<and>
     length (data out) = length (data df) \<and>
     (\<forall>r < length (data df).
        length (data out ! r) = length (data df ! r) \<and>
        (\<forall>c < length (data df ! r).
           (let v = data df ! r ! c in
            if isnan v then data out ! r ! c = NaN
            else d_gt v (Fin 0) \<and> data out ! r ! c = d_log v)))"
  (is "?l \<longleftrightarrow> ?r")
proof -
  let ?f = "\<lambda>v. if isnan v then Inr NaN
            else if \<not> d_gt v (Fin 0)
            then Inl ''dataframe::log_elements: non-positive value encountered''
            else Inr (d_log v)"
  have cell: "?f v = Inr w \<longleftrightarrow> (if isnan v then w = NaN else d_gt v (Fin 0) \<and> w = d_log v)"
    for v w by auto
  have row: "map_result ?f xs = Inr ys \<longleftrightarrow>
      length ys = length xs \<and>
      (\<forall>c < length xs. if isnan (xs ! c) then ys ! c = NaN
                       else d_gt (xs ! c) (Fin 0) \<and> ys ! c = d_log (xs ! c))" for xs ys
    unfolding map_result_Inr_iff cell ..
  have all: "map_result (map_result ?f) (data df) = Inr d \<longleftrightarrow>
      length d = length (data df) \<and>
      (\<forall>r < length (data df).
        length (d ! r) = length (data df ! r) \<and>
        (\<forall>c < length (data df ! r). if isnan (data df ! r ! c) then d ! r ! c = NaN
                       else d_gt (data df ! r ! c) (Fin 0) \<and> d ! r ! c = d_log (data df ! r ! c)))"
    for d
    unfolding map_result_Inr_iff [of "map_result ?f"] row ..
  show ?thesis
  proof
    assume ?l
    then obtain d where d: "map_result (map_result ?f) (data df) = Inr d"
      and out: "out = \<lparr>columns = columns df, index = index df, data = d,
                      index_name = index_name df\<rparr>"
      by (auto simp: log_elements_def apply_unary_def apply_scalar_def split: sum.splits)
    from d [unfolded all] out show ?r
      by (simp add: Let_def)
  next
    assume r: ?r
    then have "map_result (map_result ?f) (data df) = Inr (data out)"
      unfolding all by (simp add: Let_def)
    then show ?l using r
      by (simp add: log_elements_def apply_unary_def apply_scalar_def)
  qed
qed

lemma log_elements_isl_iff:
  "isl (log_elements df) \<longleftrightarrow>
     (\<exists>row \<in> set (data df). \<exists>v \<in> set row. \<not> isnan v \<and> \<not> d_gt v (Fin 0))"
  by (auto simp: log_elements_def apply_unary_def apply_scalar_def map_result_isl_iff
      split: if_splits)

lemma log_changes_nan:
  assumes "2 \<le> rows df" "r < rows df" "c < cols df" "isnan (data df ! r ! c)"
  shows "log_changes df = Inl ''dataframe::log_changes: non-positive value encountered''"
proof -
  let ?g = "\<lambda>r c. let prev = data df ! (r - 1) ! c; curr = data df ! r ! c in
                            if \<not> d_gt prev (Fin 0) \<or> \<not> d_gt curr (Fin 0)
                            then Inl ''dataframe::log_changes: non-positive value encountered''
                            else Inr (d_sub (d_log curr) (d_log prev))"
  let ?m = "map_result (\<lambda>r. map_result (?g r) [0..<cols df]) [1..<rows df]"
  define r' where "r' = (if r = 0 then 1 else r)"
  have r': "r' \<in> set [1..<rows df]" "r' = r \<or> r' - 1 = r"
    using assms by (auto simp: r'_def)
  have bad: "isl (?g r' c)"
    using r'(2) assms(4) by (auto simp: Let_def isnan_def d_gt_def)
  have "isl (map_result (?g r') [0..<cols df])"
    unfolding map_result_isl_iff using bad assms(3) by (intro bexI [of _ c]) auto
  then have "isl ?m"
    unfolding map_result_isl_iff [of "\<lambda>r. map_result (?g r) [0..<cols df]"]
    using r'(1) by blast
  then obtain e where e: "?m = Inl e"
    by (cases ?m) auto
  then have "e = ''dataframe::log_changes: non-positive value encountered''"
  proof (rule map_result_Inl_const)
    fix x e1
    assume "map_result (?g x) [0..<cols df] = Inl e1"
    then show "e1 = ''dataframe::log_changes: non-positive value encountered''"
      by (rule map_result_Inl_const) (auto simp: Let_def split: if_splits)
  qed
  with e assms(1) show ?thesis
    by (simp add: log_changes_def)
qed

text \<open>
  Claim C9. \<open>log_elements\<close> fails exactly when some cell is neither NaN nor
  positive, and where it succeeds every NaN cell of the input is a NaN cell of
  the output (and every other cell holds the logarithm). \<open>log_changes\<close>, on a
  table with at least two rows, throws its non-positive-value error as soon as
  any cell of the table is NaN: with two or more rows every cell takes part in
  a change computation.
\<close>

theorem log_changes_rejects_nan:
  "(isl (log_elements df) \<longleftrightarrow>
      (\<exists>row \<in> set (data df). \<exists>v \<in> set row. \<not> isnan v \<and> \<not> d_gt v (Fin 0))) \<and>
   (log_elements df = Inr out \<longrightarrow>
      length (data out) = length (data df) \<and>
      (\<forall>r < length (data df).
         length (data out ! r) = length (data df ! r) \<and>
         (\<forall>c < length (data df ! r).
            (isnan (data df ! r ! c) \<longrightarrow> data out ! r ! c = NaN) \<and>
            (\<not> isnan (data df ! r ! c) \<longrightarrow> data out ! r ! c = d_log (data df ! r ! c))))) \<and>
   (2 \<le> rows df \<and> (\<exists>r < rows df. \<exists>c < cols df. isnan (data df ! r ! c)) \<longrightarrow>
      log_changes df = Inl ''dataframe::log_changes: non-positive value encountered'')"
proof (intro conjI impI)
  show "isl (log_elements df) \<longleftrightarrow>
      (\<exists>row \<in> set (data df). \<exists>v \<in> set row. \<not> isnan v \<and> \<not> d_gt v (Fin 0))"
    by (rule log_elements_isl_iff)
next
  assume "log_elements df = Inr out"
  then show "length (data out) = length (data df)"
    by (simp add: log_elements_Inr_iff)
next
  assume a: "log_elements df = Inr out"
  show "\<forall>r < length (data df).
         length (data out ! r) = length (data df ! r) \<and>
         (\<forall>c < length (data df ! r).
            (isnan (data df ! r ! c) \<longrightarrow> data out ! r ! c = NaN) \<and>
            (\<not> isnan (data df ! r ! c) \<longrightarrow> data out ! r ! c = d_log (data df ! r ! c)))"
    using a unfolding log_elements_Inr_iff Let_def by (auto split: if_splits)
next
  assume "2 \<le> rows df \<and> (\<exists>r < rows df. \<exists>c < cols df. isnan (data df ! r ! c))"
  then show "log_changes df = Inl ''dataframe::log_changes: non-positive value encountered''"
    using log_changes_nan by blast
qed

theorem log_changes_rejects_nan_witness:
  "log_elements \<lparr>columns = [''a''], index = [1::int, 2], data = [[Fin 1], [NaN]], index_name = ''index''\<rparr>
     = Inr \<lparr>columns = [''a''], index = [1::int, 2], data = [[Fin 0], [NaN]], index_name = ''index''\<rparr> \<and>
   log_changes \<lparr>columns = [''a''], index = [1::int, 2], data = [[Fin 1], [NaN]], index_name = ''index''\<rparr>
     = Inl ''dataframe::log_changes: non-positive value encountered''"
proof -
  let ?df = "\<lparr>columns = [''a''], index = [1::int, 2], data = [[Fin 1], [NaN]], index_name = ''index''\<rparr>"
  have "isnan (data ?df ! 1 ! 0)"
    by (simp add: isnan_def)
  then have h: "2 \<le> rows ?df \<and> (\<exists>r < rows ?df. \<exists>c < cols ?df. isnan (data ?df ! r ! c))"
    by (intro conjI exI [of _ 1] exI [of _ 0]) (simp_all add: rows_def cols_def)
  have "log_changes ?df = Inl ''dataframe::log_changes: non-positive value encountered''"
    using log_changes_rejects_nan [of ?df] h by blast
  moreover have "log_elements ?df =
      Inr \<lparr>columns = [''a''], index = [1::int, 2], data = [[Fin 0], [NaN]], index_name = ''index''\<rparr>"
    by (simp add: log_elements_def apply_unary_def apply_scalar_def isnan_def d_gt_def)
  ultimately show ?thesis by simp
qed

subsection \<open>Stable sorting\<close>

lemma set_insert_sorted [simp]: "set (insert_sorted cmp x ys) = insert x (set ys)"
  by (induction ys) auto

lemma mset_insert_sorted [simp]: "mset (insert_sorted cmp x ys) = add_mset x (mset ys)"
  by (induction ys) auto

lemma mset_stable_sort [simp]: "mset (stable_sort cmp xs) = mset xs"
  by (induction xs) (auto simp: stable_sort_def)

lemma set_stable_sort [simp]: "set (stable_sort cmp xs) = set xs"
  by (induction xs) (auto simp: stable_sort_def)

lemma length_stable_sort [simp]: "length (stable_sort cmp xs) = length xs"
  by (metis mset_stable_sort size_mset)

text \<open>On a strict weak ordering, insertion keeps the list in stable order.\<close>

lemma precedes_insert_sorted:
  assumes asym: "\<And>a b. cmp a b \<Longrightarrow> \<not> cmp b a"
    and negtrans: "\<And>a b c. cmp a c \<Longrightarrow> cmp a b \<or> cmp b c"
    and "sorted_wrt (precedes cmp) ys" "\<forall>y \<in> set ys. x < y"
  shows "sorted_wrt (precedes cmp) (insert_sorted cmp x ys)"
  using assms(3,4)
proof (induction ys)
  case Nil
  then show ?case by simp
next
  case (Cons y ys)
  show ?case
  proof (cases "cmp y x")
    case True
    then have "precedes cmp y x"
      by (simp add: precedes_def)
    with Cons True show ?thesis by auto
  next
    case False
    have "precedes cmp x z" if z: "z \<in> set (y # ys)" for z
    proof -
      have xz: "x < z" using Cons.prems(2) z by auto
      have "\<not> cmp z x"
      proof
        assume zx: "cmp z x"
        then have "cmp z y" using negtrans [OF zx, of y] False by simp
        then have "z \<noteq> y" "\<not> cmp y z" using asym by auto
        moreover have "precedes cmp y z" using Cons.prems(1) z \<open>z \<noteq> y\<close> by auto
        ultimately show False using \<open>cmp z y\<close> by (simp add: precedes_def)
      qed
      with xz show ?thesis by (simp add: precedes_def)
    qed
    with Cons.prems(1) False show ?thesis by simp
  qed
qed

lemma precedes_stable_sort:
  assumes asym: "\<And>a b. cmp a b \<Longrightarrow> \<not> cmp b a"
    and negtrans: "\<And>a b c. cmp a c \<Longrightarrow> cmp a b \<or> cmp b c"
    and "sorted_wrt (<) xs"
  shows "sorted_wrt (precedes cmp) (stable_sort cmp xs)"
  using assms(3)
proof (induction xs)
  case Nil
  then show ?case by (simp add: stable_sort_def)
next
  case (Cons x xs)
  have "sorted_wrt (precedes cmp) (insert_sorted cmp x (stable_sort cmp xs))"
    using Cons by (intro precedes_insert_sorted asym negtrans) auto
  then show ?case by (simp add: stable_sort_def)
qed

lemma d_lt_asym: "d_lt a b \<Longrightarrow> \<not> d_lt b a"
  by (cases a; cases b) auto

lemma d_lt_negtrans: "d_lt a c \<Longrightarrow> b \<noteq> NaN \<Longrightarrow> d_lt a b \<or> d_lt b c"
  by (cases a; cases b; cases c) auto

lemma comparator_eq:
  "comparator key asc a b =
     (if key a = NaN then (if key b = NaN then a < b else \<not> asc)
      else if key b = NaN then asc
      else if asc then d_lt (key a) (key b) else d_lt (key b) (key a))"
  by (simp add: comparator_def Let_def d_eq_def d_gt_def)

lemma comparator_asym: "comparator key asc a b \<Longrightarrow> \<not> comparator key asc b a"
  unfolding comparator_eq
  by (cases "key a = NaN"; cases "key b = NaN"; cases asc) (auto dest: d_lt_asym)

lemma comparator_negtrans:
  "comparator key asc a c \<Longrightarrow> comparator key asc a b \<or> comparator key asc b c"
  unfolding comparator_eq
  using d_lt_negtrans [of "key a" "key c" "key b"] d_lt_negtrans [of "key c" "key a" "key b"]
  by (cases "key a = NaN"; cases "key b = NaN"; cases "key c = NaN"; cases asc) auto

lemma stable_order_stable_sort:
  "stable_order key asc n (stable_sort (comparator key asc) [0..<n])"
proof -
  let ?order = "stable_sort (comparator key asc) [0..<n]"
  have s: "sorted_wrt (precedes (comparator key asc)) ?order"
    by (intro precedes_stable_sort comparator_asym comparator_negtrans) simp_all
  have p: "precedes (comparator key asc) (?order ! i) (?order ! j)"
    if "i < j" "j < length ?order" for i j
    using s that by (simp add: sorted_wrt_iff_nth_less)
  have q: "(asc \<longrightarrow> \<not> (isnan (key x) \<and> \<not> isnan (key y)) \<and>
                 (\<not> isnan (key x) \<and> \<not> isnan (key y) \<longrightarrow> \<not> d_lt (key y) (key x))) \<and>
           (\<not> asc \<longrightarrow> \<not> (\<not> isnan (key x) \<and> isnan (key y)) \<and>
                 (\<not> isnan (key x) \<and> \<not> isnan (key y) \<longrightarrow> \<not> d_lt (key x) (key y))) \<and>
           (d_eq (key x) (key y) \<or> (isnan (key x) \<and> isnan (key y)) \<longrightarrow> x < y)"
    if "precedes (comparator key asc) x y" for x y
    using that d_lt_asym [of "key x" "key y"] d_lt_asym [of "key y" "key x"]
    unfolding precedes_def comparator_eq isnan_def d_eq_def
    by (cases "key x = NaN"; cases "key y = NaN"; cases asc) auto
  show ?thesis
    unfolding stable_order_def Let_def using q [OF p] by simp
qed

lemma find_upt_Some:
  "find P [0..<n] = Some i \<Longrightarrow> i < n \<and> P i \<and> (\<forall>j < i. \<not> P j)"
  by (auto simp: find_Some_iff)

text \<open>
  Claim C7. When \<open>sort_rows_by_column\<close> succeeds, the named column exists (its
  first position is \<open>c\<close>), and the output is the input with its rows (and index
  values) taken in an order that is stable for the keys of column \<open>c\<close>: NaN keys
  after all other keys when ascending and before them when descending, the other
  keys sorted, and rows with equal keys or with two NaN keys in their original
  order. It succeeds whenever the column exists. The same holds of
  \<open>sort_columns_by_row\<close> for the columns and the keys of the row found for the
  index value.
\<close>

theorem sort_stable_nan_order:
  "(cols df \<noteq> 0 \<and> find_column_index name df = Inr c \<longrightarrow>
      (\<exists>order. stable_order (\<lambda>r. data df ! r ! c) asc (rows df) order \<and>
         sort_rows_by_column name asc df =
           Inr \<lparr>columns = columns df, index = map (\<lambda>p. index df ! p) order,
                data = map (\<lambda>p. data df ! p) order, index_name = index_name df\<rparr>)) \<and>
   (sort_rows_by_column name asc df = Inr out \<longrightarrow>
      (\<exists>c order. find_column_index name df = Inr c \<and>
         stable_order (\<lambda>r. data df ! r ! c) asc (rows df) order \<and>
         index out = map (\<lambda>p. index df ! p) order \<and>
         data out = map (\<lambda>p. data df ! p) order \<and> columns out = columns df)) \<and>
   (cols df \<noteq> 0 \<and> rows df \<noteq> 0 \<and> find_row_position v df = Inr r \<longrightarrow>
      (\<exists>order. stable_order (\<lambda>c. data df ! r ! c) asc (cols df) order \<and>
         sort_columns_by_row v asc df =
           Inr \<lparr>columns = map (\<lambda>c. columns df ! c) order, index = index df,
                data = map (\<lambda>r. map (\<lambda>c. data df ! r ! c) order) [0..<rows df],
                index_name = index_name df\<rparr>)) \<and>
   (sort_columns_by_row v asc df = Inr out \<longrightarrow>
      (\<exists>r order. find_row_position v df = Inr r \<and>
         stable_order (\<lambda>c. data df ! r ! c) asc (cols df) order \<and>
         columns out = map (\<lambda>c. columns df ! c) order \<and>
         data out = map (\<lambda>r. map (\<lambda>c. data df ! r ! c) order) [0..<rows df] \<and>
         index out = index df))"
proof (intro conjI impI)
  assume "cols df \<noteq> 0 \<and> find_column_index name df = Inr c"
  then show "\<exists>order. stable_order (\<lambda>r. data df ! r ! c) asc (rows df) order \<and>
         sort_rows_by_column name asc df =
           Inr \<lparr>columns = columns df, index = map (\<lambda>p. index df ! p) order,
                data = map (\<lambda>p. data df ! p) order, index_name = index_name df\<rparr>"
    by (intro exI [of _ "stable_sort (comparator (\<lambda>r. data df ! r ! c) asc) [0..<rows df]"])
      (simp add: sort_rows_by_column_def stable_order_stable_sort Let_def)
next
  assume a: "sort_rows_by_column name asc df = Inr out"
  then obtain c where c: "find_column_index name df = Inr c"
    by (cases "find_column_index name df") (auto simp: sort_rows_by_column_def split: if_splits)
  show "\<exists>c order. find_column_index name df = Inr c \<and>
         stable_order (\<lambda>r. data df ! r ! c) asc (rows df) order \<and>
         index out = map (\<lambda>p. index df ! p) order \<and>
         data out = map (\<lambda>p. data df ! p) order \<and> columns out = columns df"
    using a c
    by (intro exI [of _ c]
        exI [of _ "stable_sort (comparator (\<lambda>r. data df ! r ! c) asc) [0..<rows df]"])
      (auto simp: sort_rows_by_column_def stable_order_stable_sort Let_def split: if_splits)
next
  assume "cols df \<noteq> 0 \<and> rows df \<noteq> 0 \<and> find_row_position v df = Inr r"
  then show "\<exists>order. stable_order (\<lambda>c. data df ! r ! c) asc (cols df) order \<and>
         sort_columns_by_row v asc df =
           Inr \<lparr>columns = map (\<lambda>c. columns df ! c) order, index = index df,
                data = map (\<lambda>r. map (\<lambda>c. data df ! r ! c) order) [0..<rows df],
                index_name = index_name df\<rparr>"
    by (intro exI [of _ "stable_sort (comparator (\<lambda>c. data df ! r ! c) asc) [0..<cols df]"])
      (simp add: sort_columns_by_row_def stable_order_stable_sort Let_def)
next
  assume a: "sort_columns_by_row v asc df = Inr out"
  then obtain r where r: "find_row_position v df = Inr r"
    by (cases "find_row_position v df") (auto simp: sort_columns_by_row_def split: if_splits)
  show "\<exists>r order. find_row_position v df = Inr r \<and>
         stable_order (\<lambda>c. data df ! r ! c) asc (cols df) order \<and>
         columns out = map (\<lambda>c. columns df ! c) order \<and>
         data out = map (\<lambda>r. map (\<lambda>c. data df ! r ! c) order) [0..<rows df] \<and>
         index out = index df"
    using a r
    by (intro exI [of _ r]
        exI [of _ "stable_sort (comparator (\<lambda>c. data df ! r ! c) asc) [0..<cols df]"])
      (auto simp: sort_columns_by_row_def stable_order_stable_sort Let_def split: if_splits)
qed
theorem sort_stable_nan_order_witness:
  "sort_rows_by_column ''a'' True
     \<lparr>columns = [''a''], index = [10::int, 20, 30], data = [[NaN], [Fin 2], [Fin 1]],
      index_name = ''index''\<rparr> =
   Inr \<lparr>columns = [''a''], index = [30, 20, 10], data = [[Fin 1], [Fin 2], [NaN]],
        index_name = ''index''\<rparr> \<and>
   (\<exists>order. stable_order (\<lambda>r. [[NaN], [Fin 2], [Fin 1]] ! r ! 0) True 3 order \<and>
      [30, 20, 10::int] = map (\<lambda>p. [10, 20, 30] ! p) order)"
proof -
  let ?df = "\<lparr>columns = [''a''], index = [10::int, 20, 30], data = [[NaN], [Fin 2], [Fin 1]],
      index_name = ''index''\<rparr>"
  let ?out = "\<lparr>columns = [''a''], index = [30::int, 20, 10], data = [[Fin 1], [Fin 2], [NaN]],
        index_name = ''index''\<rparr>"
  have c: "find_column_index ''a'' ?df = Inr 0"
    by (simp add: find_column_index_def)
  have ev: "sort_rows_by_column ''a'' True ?df = Inr ?out"
    by (simp add: sort_rows_by_column_def c cols_def rows_def stable_sort_def comparator_eq
        upt_conv_Cons)
  from sort_stable_nan_order [of ?df "''a''" 0 True ?out, THEN conjunct2, THEN conjunct1,
      THEN mp, OF ev]
  obtain c' order where o: "find_column_index ''a'' ?df = Inr c'"
    "stable_order (\<lambda>r. data ?df ! r ! c') True (rows ?df) order"
    "index ?out = map (\<lambda>p. index ?df ! p) order"
    by (elim exE conjE)
  from o(1) c have "c' = 0" by simp
  with o(2,3) have "stable_order (\<lambda>r. [[NaN], [Fin 2], [Fin 1]] ! r ! 0) True 3 order \<and>
      [30, 20, 10::int] = map (\<lambda>p. [10, 20, 30] ! p) order"
    by (simp add: rows_def eval_nat_numeral)
  then show ?thesis using ev by (intro conjI exI [of _ order]) simp_all
qed

subsection \<open>Percentiles\<close>

lemma sorted_insert_sorted:
  assumes asym: "\<And>a b. a \<in> A \<Longrightarrow> b \<in> A \<Longrightarrow> cmp a b \<Longrightarrow> \<not> cmp b a"
    and negtrans: "\<And>a b c. a \<in> A \<Longrightarrow> b \<in> A \<Longrightarrow> c \<in> A \<Longrightarrow> cmp a c \<Longrightarrow> cmp a b \<or> cmp b c"
    and "sorted_wrt (\<lambda>a b. \<not> cmp b a) ys" "x \<in> A" "set ys \<subseteq> A"
  shows "sorted_wrt (\<lambda>a b. \<not> cmp b a) (insert_sorted cmp x ys)"
  using assms(3,5)
proof (induction ys)
  case Nil
  then show ?case by simp
next
  case (Cons y ys)
  then have yA: "y \<in> A" and ysA: "set ys \<subseteq> A" by auto
  show ?case
  proof (cases "cmp y x")
    case True
    then have "\<not> cmp x y" using asym [OF yA assms(4)] by blast
    with Cons True ysA show ?thesis by auto
  next
    case False
    have "\<not> cmp z x" if z: "z \<in> set ys" for z
    proof
      assume zx: "cmp z x"
      have zA: "z \<in> A" using z ysA by blast
      from negtrans [OF zA yA assms(4) zx] False have "cmp z y" by simp
      moreover have "\<not> cmp z y" using Cons.prems(1) z by simp
      ultimately show False by simp
    qed
    with Cons.prems(1) False show ?thesis by auto
  qed
qed

lemma sorted_stable_sort:
  assumes asym: "\<And>a b. a \<in> A \<Longrightarrow> b \<in> A \<Longrightarrow> cmp a b \<Longrightarrow> \<not> cmp b a"
    and negtrans: "\<And>a b c. a \<in> A \<Longrightarrow> b \<in> A \<Longrightarrow> c \<in> A \<Longrightarrow> cmp a c \<Longrightarrow> cmp a b \<or> cmp b c"
    and "set xs \<subseteq> A"
  shows "sorted_wrt (\<lambda>a b. \<not> cmp b a) (stable_sort cmp xs)"
  using assms(3)
proof (induction xs)
  case Nil
  then show ?case by (simp add: stable_sort_def)
next
  case (Cons x xs)
  have "sorted_wrt (\<lambda>a b. \<not> cmp b a) (insert_sorted cmp x (stable_sort cmp xs))"
    using Cons by (intro sorted_insert_sorted [where A = A] asym negtrans) auto
  then show ?case by (simp add: stable_sort_def)
qed

lemma sorted_wrt_unique:
  assumes antisym: "\<And>a b. R a b \<Longrightarrow> R b a \<Longrightarrow> a = b"
  shows "sorted_wrt R xs \<Longrightarrow> sorted_wrt R ys \<Longrightarrow> mset xs = mset ys \<Longrightarrow> xs = ys"
proof (induction xs arbitrary: ys)
  case Nil
  then show ?case by simp
next
  case (Cons x xs)
  then obtain y ys' where ys: "ys = y # ys'"
    by (cases ys) auto
  have "x \<in> set ys" "y \<in> set (x # xs)"
    using Cons.prems(3) ys by (metis list.set_intros(1) mset_eq_setD)+
  then have "x = y \<or> (R y x \<and> R x y)"
    using Cons.prems(1,2) ys by auto
  then have xy: "x = y" using antisym by blast
  then have "mset xs = mset ys'" using Cons.prems(3) ys by simp
  then have "xs = ys'" using Cons.IH [of ys'] Cons.prems(1,2) ys by simp
  with xy ys show ?case by simp
qed

lemma not_d_lt_iff_d_le: "a \<noteq> NaN \<Longrightarrow> b \<noteq> NaN \<Longrightarrow> \<not> d_lt b a \<longleftrightarrow> d_le a b"
  by (cases a; cases b) (auto simp: d_le_def d_eq_def)

lemma d_le_antisym: "d_le a b \<Longrightarrow> d_le b a \<Longrightarrow> a = b"
  by (cases a; cases b) (auto simp: d_le_def d_eq_def)

lemma d_le_NaN [simp]: "\<not> d_le NaN b" "\<not> d_le a NaN"
  by (cases b; cases a; simp add: d_le_def d_eq_def)+

lemma column_values_not_NaN: "v \<in> set (column_values df c) \<Longrightarrow> v \<noteq> NaN"
  by (auto simp: column_values_def d_eq_def)

lemma sorted_sort_values:
  assumes "NaN \<notin> set vals"
  shows "sorted_wrt d_le (stable_sort d_lt vals)"
proof -
  have "sorted_wrt (\<lambda>a b. \<not> d_lt b a) (stable_sort d_lt vals)"
    using assms d_lt_asym d_lt_negtrans
    by (intro sorted_stable_sort [where A = "{v. v \<noteq> NaN}"]) auto
  moreover have "d_le a b"
    if "a \<in> set (stable_sort d_lt vals)" "b \<in> set (stable_sort d_lt vals)" "\<not> d_lt b a" for a b
  proof -
    have "a \<noteq> NaN" "b \<noteq> NaN" using that(1,2) assms by auto
    then show ?thesis using that(3) by (simp add: not_d_lt_iff_d_le)
  qed
  ultimately show ?thesis
    by (rule sorted_wrt_mono_rel [rotated])
qed

lemma sort_values_unique:
  assumes "NaN \<notin> set vals" "mset s = mset vals" "sorted_wrt d_le s"
  shows "s = stable_sort d_lt vals"
proof (rule sorted_wrt_unique [of d_le])
  show "sorted_wrt d_le s" by (rule assms(3))
  show "sorted_wrt d_le (stable_sort d_lt vals)" by (rule sorted_sort_values [OF assms(1)])
  show "mset s = mset (stable_sort d_lt vals)" by (simp add: assms(2))
qed (rule d_le_antisym)

lemma map_result_pure_cong:
  "(\<And>x. x \<in> set xs \<Longrightarrow> f x = Inr (g x)) \<Longrightarrow> map_result f xs = Inr (map g xs)"
  by (induction xs) auto

lemma percentile_of_low: "x \<le> 0 \<Longrightarrow> percentile_of s (Fin x) = Inr (hd s)"
  by (simp add: percentile_of_def d_le_def d_eq_def)

lemma percentile_of_high: "0 < x \<Longrightarrow> 100 \<le> x \<Longrightarrow> percentile_of s (Fin x) = Inr (last s)"
  by (auto simp: percentile_of_def d_le_def d_ge_def d_eq_def)

lemma percentile_of_mid:
  assumes "0 < x" "x < 100" "length s - 1 < 2 ^ 64"
  shows "percentile_of s (Fin x) = Inr (interpolate s x)"
proof -
  define n1 where "n1 = length s - 1"
  define rank where "rank = x / 100 * real n1"
  have r0: "0 \<le> rank" using assms(1) by (simp add: rank_def)
  have "x / 100 \<le> 1" using assms(2) by simp
  then have "rank \<le> 1 * real n1"
    unfolding rank_def by (intro mult_right_mono) simp_all
  then have rn: "rank \<le> real n1" by simp
  have n64: "real n1 < 2 ^ 64"
    using assms(3) unfolding n1_def by (metis of_nat_less_numeral_power_cancel_iff)
  have f0: "0 \<le> \<lfloor>rank\<rfloor>" using r0 by simp
  have fl: "real_of_int \<lfloor>rank\<rfloor> < 2 ^ 64"
    using rn n64 by (meson le_less_trans of_int_floor_le)
  have "\<lceil>rank\<rceil> \<le> int n1" using rn by (simp add: ceiling_le_iff)
  then have "real_of_int \<lceil>rank\<rceil> \<le> real n1"
    by (metis of_int_le_iff of_int_of_nat_eq)
  then have cl: "real_of_int \<lceil>rank\<rceil> < 2 ^ 64" using n64 by (rule le_less_trans)
  have c0: "0 \<le> \<lceil>rank\<rceil>" using r0 by (simp add: ceiling_le_iff le_ceiling_iff)
  have rk: "d_mul (d_div (Fin x) (Fin 100)) (of_size_t (length s - 1)) = Fin rank"
    by (simp add: of_size_t_def rank_def n1_def)
  have f1: "- 1 < real_of_int \<lfloor>rank\<rfloor>"
  proof -
    have "0 \<le> real_of_int \<lfloor>rank\<rfloor>" using f0 by (simp only: of_int_0_le_iff)
    then show ?thesis by linarith
  qed
  have c1: "- 1 < real_of_int \<lceil>rank\<rceil>"
  proof -
    have "0 \<le> real_of_int \<lceil>rank\<rceil>" using c0 by (simp only: of_int_0_le_iff)
    then show ?thesis by linarith
  qed
  have lo: "to_size_t (d_floor (Fin rank)) = Some (nat \<lfloor>rank\<rfloor>)"
    by (simp only: d_floor.simps to_size_t.simps floor_of_int f1 fl simp_thms if_True)
  have hi: "to_size_t (d_ceil (Fin rank)) = Some (nat \<lceil>rank\<rceil>)"
    by (simp only: d_ceil.simps to_size_t.simps floor_of_int c1 cl simp_thms if_True)
  have fr: "d_sub (Fin rank) (of_size_t (nat \<lfloor>rank\<rfloor>)) = Fin (rank - of_int \<lfloor>rank\<rfloor>)"
    using f0 by (simp add: d_sub_def of_size_t_def)
  have neg: "d_le (Fin x) (Fin 0) = False" "d_ge (Fin x) (Fin 100) = False"
    using assms by (simp_all add: d_le_def d_ge_def d_eq_def)
  have "percentile_of s (Fin x) =
      Inr (d_add (s ! nat \<lfloor>rank\<rfloor>)
             (d_mul (Fin (rank - of_int \<lfloor>rank\<rfloor>)) (d_sub (s ! nat \<lceil>rank\<rceil>) (s ! nat \<lfloor>rank\<rfloor>))))"
    by (simp only: percentile_of_def Let_def rk lo hi fr neg if_False prod.case option.case)
  also have "\<dots> = Inr (interpolate s x)"
    by (simp only: interpolate_def Let_def rank_def n1_def)
  finally show ?thesis .
qed

lemma sorted_hd_min:
  assumes "sorted_wrt d_le s" "s \<noteq> []" "NaN \<notin> set s"
  shows "hd s \<in> set s \<and> (\<forall>v \<in> set s. d_le (hd s) v)"
proof -
  obtain y ys where s: "s = y # ys" using assms(2) by (cases s) auto
  have "d_le y y" using assms(3) s by (cases y) (auto simp: d_le_def d_eq_def)
  then show ?thesis using assms(1) s by auto
qed

lemma sorted_last_max:
  assumes "sorted_wrt d_le s" "s \<noteq> []" "NaN \<notin> set s"
  shows "last s \<in> set s \<and> (\<forall>v \<in> set s. d_le v (last s))"
proof (intro conjI ballI)
  show "last s \<in> set s" using assms(2) by simp
next
  fix v assume "v \<in> set s"
  then obtain i where i: "i < length s" "v = s ! i"
    by (auto simp: in_set_conv_nth)
  have l: "last s = s ! (length s - 1)" using assms(2) by (simp add: last_conv_nth)
  show "d_le v (last s)"
  proof (cases "i = length s - 1")
    case True
    have "v \<noteq> NaN" using \<open>v \<in> set s\<close> assms(3) by auto
    then have "d_le v v" by (cases v) (auto simp: d_le_def d_eq_def)
    then show ?thesis using True i l by simp
  next
    case False
    then have "i < length s - 1" using i by simp
    then show ?thesis
      using assms(1) i unfolding l by (simp add: sorted_wrt_iff_nth_less)
  qed
qed

lemma percentile_cell:
  assumes "0 \<le> x" "x \<le> 100" "length vals - 1 < 2 ^ 64"
  shows "percentile_of (stable_sort d_lt vals) (Fin x) =
     Inr (if x = 0 then hd (stable_sort d_lt vals)
          else if x = 100 then last (stable_sort d_lt vals)
          else interpolate (stable_sort d_lt vals) x)"
proof -
  consider "x = 0" | "x = 100" | "0 < x" "x < 100"
    using assms(1,2) by fastforce
  then show ?thesis
  proof cases
    case 1
    then show ?thesis by (simp add: percentile_of_low)
  next
    case 2
    then show ?thesis by (simp add: percentile_of_high)
  next
    case 3
    then show ?thesis using assms(3) by (simp add: percentile_of_mid)
  qed
qed

text \<open>
  What \<open>column_percentiles\<close> does on percentiles that are numbers. A requested
  percentile below 0 or above 100 makes it fail. For a table with at least one
  column (and fewer than \<open>2^64\<close> rows) and a non-empty list of percentiles within
  \<open>[0, 100]\<close> it returns one row per percentile, and in the row of percentile \<open>x\<close>
  the cell of a column is: NaN when the column has no non-missing value; a least
  non-missing value of the column when \<open>x = 0\<close>; a greatest one when \<open>x = 100\<close>;
  and otherwise the value of the interpolation expression of the code (written
  here without rounding) at rank \<open>x / 100 * (count - 1)\<close> in the sorted sequence
  of the column's non-missing values.
\<close>

lemma column_percentiles_numeric:
  "((\<exists>p \<in> set percentiles. d_lt p (Fin 0) \<or> d_gt p (Fin 100)) \<longrightarrow>
      isl (column_percentiles fmt percentiles df)) \<and>
   (columns df \<noteq> [] \<and> percentiles \<noteq> [] \<and> rows df < 2 ^ 64 \<and>
    (\<forall>p \<in> set percentiles. \<exists>x. p = Fin x \<and> 0 \<le> x \<and> x \<le> 100) \<longrightarrow>
      (\<exists>out. column_percentiles fmt percentiles df = Inr out \<and>
         rows out = length percentiles \<and> columns out = columns df \<and> wf_frame out \<and>
         (\<forall>i < length percentiles. \<forall>c < cols df.
            (let vals = column_values df c; x = fin_val (percentiles ! i); v = data out ! i ! c in
             (vals = [] \<longrightarrow> v = NaN) \<and>
             (vals \<noteq> [] \<and> x = 0 \<longrightarrow> v \<in> set vals \<and> (\<forall>u \<in> set vals. d_le v u)) \<and>
             (vals \<noteq> [] \<and> x = 100 \<longrightarrow> v \<in> set vals \<and> (\<forall>u \<in> set vals. d_le u v)) \<and>
             (vals \<noteq> [] \<and> 0 < x \<and> x < 100 \<longrightarrow>
                (\<forall>s. mset s = mset vals \<and> sorted_wrt d_le s \<longrightarrow> v = interpolate s x))))))"
proof (intro conjI impI)
  assume "\<exists>p \<in> set percentiles. d_lt p (Fin 0) \<or> d_gt p (Fin 100)"
  then show "isl (column_percentiles fmt percentiles df)"
    by (auto simp: column_percentiles_def)
next
  assume a: "columns df \<noteq> [] \<and> percentiles \<noteq> [] \<and> rows df < 2 ^ 64 \<and>
    (\<forall>p \<in> set percentiles. \<exists>x. p = Fin x \<and> 0 \<le> x \<and> x \<le> 100)"
  define srt where "srt c = stable_sort d_lt (column_values df c)" for c
  define cellv where "cellv i c =
     (if column_values df c = [] then NaN
      else if fin_val (percentiles ! i) = 0 then hd (srt c)
      else if fin_val (percentiles ! i) = 100 then last (srt c)
      else interpolate (srt c) (fin_val (percentiles ! i)))" for i c
  define out where "out = \<lparr>columns = columns df, index = map fmt percentiles,
     data = map (\<lambda>i. map (\<lambda>c. cellv i c) [0..<cols df]) [0..<length percentiles],
     index_name = ''percentile''\<rparr>"
  have px: "\<exists>x. percentiles ! i = Fin x \<and> 0 \<le> x \<and> x \<le> 100" if "i < length percentiles" for i
    using a that nth_mem [of i percentiles] by blast
  have rl: "rows df < 2 ^ 64" using a by (elim conjE)
  have len: "length (column_values df c) - 1 < 2 ^ 64" for c
  proof -
    have "length (column_values df c) \<le> length (map (\<lambda>r. data df ! r ! c) [0..<rows df])"
      unfolding column_values_def by (rule length_filter_le)
    then have "length (column_values df c) \<le> rows df" by simp
    then have "length (column_values df c) - 1 \<le> rows df" by (rule le_trans [OF diff_le_self])
    then show ?thesis using rl by (rule le_less_trans)
  qed
  have cell: "(let vals = column_values df c in
          if vals = [] then Inr NaN
          else percentile_of (stable_sort d_lt vals) (percentiles ! i)) = Inr (cellv i c)"
    if "i < length percentiles" for i c
  proof -
    from px [OF that] obtain x where x: "percentiles ! i = Fin x" "0 \<le> x" "x \<le> 100"
      by blast
    show ?thesis
      unfolding Let_def cellv_def srt_def x(1) fin_val.simps
      by (simp add: percentile_cell [OF x(2,3) len])
  qed
  have chk: "\<not> (\<exists>p \<in> set percentiles. d_lt p (Fin 0) \<or> d_gt p (Fin 100))"
    using a by (auto simp: d_gt_def)
  have "map_result
          (\<lambda>p_idx. map_result
             (\<lambda>c. let vals = column_values df c in
                  if vals = [] then Inr NaN
                  else percentile_of (stable_sort d_lt vals) (percentiles ! p_idx))
             [0..<cols df])
          [0..<length percentiles] =
        Inr (map (\<lambda>i. map (\<lambda>c. cellv i c) [0..<cols df]) [0..<length percentiles])"
    by (intro map_result_pure_cong) (simp add: cell)
  then have r: "column_percentiles fmt percentiles df = Inr out"
    using a chk by (simp add: column_percentiles_def out_def)
  have wfo: "wf_frame out"
    by (simp add: out_def wf_frame_def list_all_iff cols_def)
  have cells: "\<forall>i < length percentiles. \<forall>c < cols df.
            (let vals = column_values df c; x = fin_val (percentiles ! i); v = data out ! i ! c in
             (vals = [] \<longrightarrow> v = NaN) \<and>
             (vals \<noteq> [] \<and> x = 0 \<longrightarrow> v \<in> set vals \<and> (\<forall>u \<in> set vals. d_le v u)) \<and>
             (vals \<noteq> [] \<and> x = 100 \<longrightarrow> v \<in> set vals \<and> (\<forall>u \<in> set vals. d_le u v)) \<and>
             (vals \<noteq> [] \<and> 0 < x \<and> x < 100 \<longrightarrow>
                (\<forall>s. mset s = mset vals \<and> sorted_wrt d_le s \<longrightarrow> v = interpolate s x)))"
  proof (intro allI impI)
    fix i c
    assume ic: "i < length percentiles" "c < cols df"
    have v: "data out ! i ! c = cellv i c"
      using ic by (simp add: out_def)
    have nn: "NaN \<notin> set (column_values df c)"
      using column_values_not_NaN by blast
    have srt: "sorted_wrt d_le (srt c)" "set (srt c) = set (column_values df c)"
      "NaN \<notin> set (srt c)"
      unfolding srt_def using nn by (simp_all add: sorted_sort_values)
    have ne: "srt c \<noteq> []" if "column_values df c \<noteq> []"
      using that srt(2) by (metis set_empty)
    have uniq: "s = srt c" if "mset s = mset (column_values df c)" "sorted_wrt d_le s" for s
      unfolding srt_def using nn that by (rule sort_values_unique)
    show "(let vals = column_values df c; x = fin_val (percentiles ! i); v = data out ! i ! c in
             (vals = [] \<longrightarrow> v = NaN) \<and>
             (vals \<noteq> [] \<and> x = 0 \<longrightarrow> v \<in> set vals \<and> (\<forall>u \<in> set vals. d_le v u)) \<and>
             (vals \<noteq> [] \<and> x = 100 \<longrightarrow> v \<in> set vals \<and> (\<forall>u \<in> set vals. d_le u v)) \<and>
             (vals \<noteq> [] \<and> 0 < x \<and> x < 100 \<longrightarrow>
                (\<forall>s. mset s = mset vals \<and> sorted_wrt d_le s \<longrightarrow> v = interpolate s x)))"
      unfolding Let_def v
    proof (intro conjI impI allI)
      assume "column_values df c = []"
      then show "cellv i c = NaN" by (simp add: cellv_def)
    next
      assume h: "column_values df c \<noteq> [] \<and> fin_val (percentiles ! i) = 0"
      then have "cellv i c = hd (srt c)" by (simp add: cellv_def)
      with sorted_hd_min [OF srt(1) ne srt(3)] h srt(2)
      show "cellv i c \<in> set (column_values df c)"
        "\<forall>u \<in> set (column_values df c). d_le (cellv i c) u"
        by simp_all
    next
      assume h: "column_values df c \<noteq> [] \<and> fin_val (percentiles ! i) = 100"
      then have "cellv i c = last (srt c)" by (simp add: cellv_def)
      with sorted_last_max [OF srt(1) ne srt(3)] h srt(2)
      show "cellv i c \<in> set (column_values df c)"
        "\<forall>u \<in> set (column_values df c). d_le u (cellv i c)"
        by simp_all
    next
      fix s
      assume h: "column_values df c \<noteq> [] \<and> 0 < fin_val (percentiles ! i) \<and>
        fin_val (percentiles ! i) < 100"
        and s: "mset s = mset (column_values df c) \<and> sorted_wrt d_le s"
      from s have "s = srt c" using uniq by blast
      then show "cellv i c = interpolate s (fin_val (percentiles ! i))"
        using h by (simp add: cellv_def)
    qed
  qed
  show "\<exists>out. column_percentiles fmt percentiles df = Inr out \<and>
         rows out = length percentiles \<and> columns out = columns df \<and> wf_frame out \<and>
         (\<forall>i < length percentiles. \<forall>c < cols df.
            (let vals = column_values df c; x = fin_val (percentiles ! i); v = data out ! i ! c in
             (vals = [] \<longrightarrow> v = NaN) \<and>
             (vals \<noteq> [] \<and> x = 0 \<longrightarrow> v \<in> set vals \<and> (\<forall>u \<in> set vals. d_le v u)) \<and>
             (vals \<noteq> [] \<and> x = 100 \<longrightarrow> v \<in> set vals \<and> (\<forall>u \<in> set vals. d_le u v)) \<and>
             (vals \<noteq> [] \<and> 0 < x \<and> x < 100 \<longrightarrow>
                (\<forall>s. mset s = mset vals \<and> sorted_wrt d_le s \<longrightarrow> v = interpolate s x))))"
  proof (intro exI [of _ out] conjI)
    show "column_percentiles fmt percentiles df = Inr out" by (rule r)
    show "rows out = length percentiles" by (simp add: out_def rows_def)
    show "columns out = columns df" by (simp add: out_def)
    show "wf_frame out" by (rule wfo)
  qed (rule cells)
qed

lemma column_percentiles_numeric_example:
  "\<exists>out. column_percentiles (\<lambda>p. ''p'') [Fin 0, Fin 50, Fin 100]
       \<lparr>columns = [''a'', ''b''], index = [1::int, 2, 3],
        data = [[Fin 1, NaN], [Fin 4, NaN], [Fin 2, NaN]], index_name = ''index''\<rparr> = Inr out \<and>
     rows out = 3 \<and> data out ! 0 ! 1 = NaN \<and> data out ! 1 ! 0 = Fin 2"
proof -
  let ?df = "\<lparr>columns = [''a'', ''b''], index = [1::int, 2, 3],
        data = [[Fin 1, NaN], [Fin 4, NaN], [Fin 2, NaN]], index_name = ''index''\<rparr>"
  let ?ps = "[Fin 0, Fin 50, Fin 100]"
  have h: "columns ?df \<noteq> [] \<and> ?ps \<noteq> [] \<and> rows ?df < 2 ^ 64 \<and>
    (\<forall>p \<in> set ?ps. \<exists>x. p = Fin x \<and> 0 \<le> x \<and> x \<le> 100)"
    by (simp add: rows_def)
  from column_percentiles_numeric [where percentiles = ?ps and df = ?df and fmt = "\<lambda>p. ''p''", THEN conjunct2, THEN mp, OF h]
  obtain out where out: "column_percentiles (\<lambda>p. ''p'') ?ps ?df = Inr out"
    "rows out = length ?ps"
    and cells: "\<forall>i < length ?ps. \<forall>c < cols ?df.
            (let vals = column_values ?df c; x = fin_val (?ps ! i); v = data out ! i ! c in
             (vals = [] \<longrightarrow> v = NaN) \<and>
             (vals \<noteq> [] \<and> x = 0 \<longrightarrow> v \<in> set vals \<and> (\<forall>u \<in> set vals. d_le v u)) \<and>
             (vals \<noteq> [] \<and> x = 100 \<longrightarrow> v \<in> set vals \<and> (\<forall>u \<in> set vals. d_le u v)) \<and>
             (vals \<noteq> [] \<and> 0 < x \<and> x < 100 \<longrightarrow>
                (\<forall>s. mset s = mset vals \<and> sorted_wrt d_le s \<longrightarrow> v = interpolate s x)))"
    by (elim exE conjE)
  have cv: "column_values ?df 1 = []" "column_values ?df 0 = [Fin 1, Fin 4, Fin 2]"
    by (simp_all add: column_values_def rows_def upt_conv_Cons d_eq_def)
  have i0: "0 < length ?ps" "1 < cols ?df" and i1: "1 < length ?ps" "0 < cols ?df"
    by (simp_all add: cols_def)
  have a: "data out ! 0 ! 1 = NaN"
    by (rule cells [rule_format, OF i0, unfolded Let_def cv, THEN conjunct1, THEN mp, OF refl])
  have s: "mset [Fin 1, Fin 2, Fin 4] = mset [Fin 1, Fin 4, Fin 2] \<and>
      sorted_wrt d_le [Fin 1, Fin 2, Fin 4]"
    by (simp add: d_le_def)
  have m: "[Fin 1, Fin 4, Fin 2] \<noteq> [] \<and> 0 < fin_val (?ps ! 1) \<and> fin_val (?ps ! 1) < 100"
    by simp
  have "\<forall>s. mset s = mset [Fin 1, Fin 4, Fin 2] \<and> sorted_wrt d_le s \<longrightarrow>
      data out ! 1 ! 0 = interpolate s (fin_val (?ps ! 1))"
    by (rule cells [rule_format, OF i1, unfolded Let_def cv, THEN conjunct2, THEN conjunct2,
          THEN conjunct2, THEN mp, OF m])
  then have "data out ! 1 ! 0 = interpolate [Fin 1, Fin 2, Fin 4] (fin_val (?ps ! 1))"
    using s by blast
  then have b: "data out ! 1 ! 0 = Fin 2"
    by (simp add: interpolate_def d_sub_def)
  show ?thesis
    using out a b by (intro exI [of _ out]) simp
qed

text \<open>
  Claim C8 says that a requested percentile outside \<open>[0, 100]\<close> is a hard
  failure. NaN is not in \<open>[0, 100]\<close>, but the range check of the code is
  \<open>p < 0.0 || p > 100.0\<close>, and both comparisons are false for NaN: a NaN percentile
  is let through. On a column without non-missing values the call then returns
  a table (its row of NaNs labelled by the NaN percentile); on a column with a
  value it goes on to convert the NaN rank to \<open>std::size_t\<close>, which is undefined
  behaviour. The checks of other parameters in the same file are written so that
  NaN is rejected (\<open>!(alpha > 0.0) || !(alpha < 1.0)\<close> in
  \<open>exponential_moving_average\<close>).
\<close>

theorem column_percentiles_accepts_nan:
  "column_percentiles (\<lambda>p. ''nan'') [NaN]
     \<lparr>columns = [''a''], index = [1::int, 2], data = [[NaN], [NaN]], index_name = ''index''\<rparr> =
     Inr \<lparr>columns = [''a''], index = [''nan''], data = [[NaN]], index_name = ''percentile''\<rparr> \<and>
   column_percentiles (\<lambda>p. ''nan'') [NaN]
     \<lparr>columns = [''a''], index = [1::int, 2], data = [[Fin 1], [Fin 2]], index_name = ''index''\<rparr> =
     Inl ''undefined behaviour: conversion of a double to std::size_t''"
  by (simp add: column_percentiles_def column_values_def percentile_of_def rows_def cols_def
      d_gt_def d_le_def d_ge_def d_eq_def of_size_t_def stable_sort_def upt_conv_Cons)

subsection \<open>Rolling mean\<close>


lemma map_upd_step:
  "k < m \<Longrightarrow> (map (\<lambda>c. if c < k then f c else g c) [0..<m])[k := f k] =
     map (\<lambda>c. if c < Suc k then f c else g c) [0..<m]"
  by (rule nth_equalityI) (auto simp: nth_list_update less_Suc_eq)

lemma map_upt_if:
  "map (\<lambda>c. if c < m then f c else g c) [0..<m] = map f [0..<m]"
  by simp

lemma map_nth_len: "length xs = m \<Longrightarrow> map (\<lambda>c. xs ! c) [0..<m] = xs"
  by (auto simp: map_nth)

lemma rolling_mean_cell_eq:
  "c < length cs \<Longrightarrow> c < length ks \<Longrightarrow>
   rolling_mean_cell rnd df w r c (cs, ks, out) =
     (let st = col_step rnd df w c r (cs ! c, ks ! c) in
      (cs[c := fst st], ks[c := snd st],
       if r + 1 \<ge> w
       then out[r + 1 - w := (out ! (r + 1 - w))[c := out_val rnd w st]]
       else out))"
  by (auto simp: rolling_mean_cell_def col_step_def out_val_def d_eq_def Let_def)
    (metis list_update_id)+

lemma inner_fold:
  assumes "length cs = m" "length ks = m" "k \<le> m"
    and "w \<le> r + 1 \<Longrightarrow> r + 1 - w < length out \<and> length (out ! (r + 1 - w)) = m"
  shows "fold (rolling_mean_cell rnd df w r) [0..<k] (cs, ks, out) =
     (map (\<lambda>c. if c < k then fst (col_step rnd df w c r (cs ! c, ks ! c)) else cs ! c) [0..<m],
      map (\<lambda>c. if c < k then snd (col_step rnd df w c r (cs ! c, ks ! c)) else ks ! c) [0..<m],
      if w \<le> r + 1
      then out[r + 1 - w :=
             map (\<lambda>c. if c < k then out_val rnd w (col_step rnd df w c r (cs ! c, ks ! c))
                       else out ! (r + 1 - w) ! c) [0..<m]]
      else out)"
  using assms(3)
proof (induction k)
  case 0
  have "map (\<lambda>c. cs ! c) [0..<m] = cs" "map (\<lambda>c. ks ! c) [0..<m] = ks"
    using assms(1,2) by (simp_all add: map_nth_len)
  moreover have "w \<le> r + 1 \<Longrightarrow> map (\<lambda>c. out ! (r + 1 - w) ! c) [0..<m] = out ! (r + 1 - w)"
    using assms(4) by (simp add: map_nth_len)
  ultimately show ?case by simp
next
  case (Suc k)
  then have k: "k < m" by simp
  let ?st = "\<lambda>c. col_step rnd df w c r (cs ! c, ks ! c)"
  let ?cs = "map (\<lambda>c. if c < k then fst (?st c) else cs ! c) [0..<m]"
  let ?ks = "map (\<lambda>c. if c < k then snd (?st c) else ks ! c) [0..<m]"
  let ?row = "map (\<lambda>c. if c < k then out_val rnd w (?st c) else out ! (r + 1 - w) ! c) [0..<m]"
  let ?out = "if w \<le> r + 1 then out[r + 1 - w := ?row] else out"
  have IH: "fold (rolling_mean_cell rnd df w r) [0..<k] (cs, ks, out) = (?cs, ?ks, ?out)"
    using Suc by simp
  have a: "?cs[k := fst (?st k)] =
      map (\<lambda>c. if c < Suc k then fst (?st c) else cs ! c) [0..<m]"
    using k by (rule map_upd_step)
  have b: "?ks[k := snd (?st k)] =
      map (\<lambda>c. if c < Suc k then snd (?st c) else ks ! c) [0..<m]"
    using k by (rule map_upd_step)
  have c: "?row[k := out_val rnd w (?st k)] =
      map (\<lambda>c. if c < Suc k then out_val rnd w (?st c) else out ! (r + 1 - w) ! c) [0..<m]"
    using k by (rule map_upd_step)
  have nk: "?cs ! k = cs ! k" "?ks ! k = ks ! k"
    using k by simp_all
  have "fold (rolling_mean_cell rnd df w r) [0..<Suc k] (cs, ks, out) =
      rolling_mean_cell rnd df w r k (?cs, ?ks, ?out)"
    using IH by simp
  also have "\<dots> = (?cs[k := fst (?st k)], ?ks[k := snd (?st k)],
      if w \<le> r + 1 then ?out[r + 1 - w := (?out ! (r + 1 - w))[k := out_val rnd w (?st k)]]
      else ?out)"
    using k by (subst rolling_mean_cell_eq) (simp_all only: nk Let_def length_map length_upt
        diff_zero)
  also have "(if w \<le> r + 1 then ?out[r + 1 - w := (?out ! (r + 1 - w))[k := out_val rnd w (?st k)]]
      else ?out) = (if w \<le> r + 1 then out[r + 1 - w := ?row[k := out_val rnd w (?st k)]] else out)"
    using assms(4) by simp
  finally show ?case
    unfolding a b c .
qed

lemma inner_fold_full:
  assumes "length cs = m" "length ks = m"
    and "w \<le> r + 1 \<Longrightarrow> r + 1 - w < length out \<and> length (out ! (r + 1 - w)) = m"
  shows "fold (rolling_mean_cell rnd df w r) [0..<m] (cs, ks, out) =
     (map (\<lambda>c. fst (col_step rnd df w c r (cs ! c, ks ! c))) [0..<m],
      map (\<lambda>c. snd (col_step rnd df w c r (cs ! c, ks ! c))) [0..<m],
      if w \<le> r + 1
      then out[r + 1 - w := map (\<lambda>c. out_val rnd w (col_step rnd df w c r (cs ! c, ks ! c))) [0..<m]]
      else out)"
  using inner_fold [OF assms(1,2) le_refl assms(3), of rnd df] unfolding map_upt_if by simp

lemma outer_fold:
  assumes "1 \<le> w" "w \<le> n" "r \<le> n"
  shows "fold (\<lambda>r. fold (rolling_mean_cell rnd df w r) [0..<m]) [0..<r]
           (replicate m (Fin 0), replicate m 0, replicate (n - w + 1) (replicate m (Fin 0))) =
     (map (\<lambda>c. fst (col_state rnd df w c r)) [0..<m],
      map (\<lambda>c. snd (col_state rnd df w c r)) [0..<m],
      map (\<lambda>k. if k + w \<le> r
                then map (\<lambda>c. out_val rnd w (col_state rnd df w c (k + w))) [0..<m]
                else replicate m (Fin 0)) [0..<n - w + 1])"
  using assms(3)
proof (induction r)
  case 0
  have "replicate m (Fin 0) = map (\<lambda>c. Fin 0) [0..<m]" "replicate m (0::int) = map (\<lambda>c. 0) [0..<m]"
    by (simp_all add: map_replicate_const)
  moreover have "replicate (n - w + 1) (replicate m (Fin 0)) =
      map (\<lambda>k. replicate m (Fin 0)) [0..<n - w + 1]"
    by (simp add: map_replicate_const)
  ultimately show ?case using assms(1) by (simp del: upt_Suc)
next
  case (Suc r)
  let ?cs = "map (\<lambda>c. fst (col_state rnd df w c r)) [0..<m]"
  let ?ks = "map (\<lambda>c. snd (col_state rnd df w c r)) [0..<m]"
  let ?out = "map (\<lambda>k. if k + w \<le> r
                then map (\<lambda>c. out_val rnd w (col_state rnd df w c (k + w))) [0..<m]
                else replicate m (Fin 0)) [0..<n - w + 1]"
  have IH: "fold (\<lambda>r. fold (rolling_mean_cell rnd df w r) [0..<m]) [0..<r]
           (replicate m (Fin 0), replicate m 0, replicate (n - w + 1) (replicate m (Fin 0))) =
     (?cs, ?ks, ?out)"
    using Suc by simp
  have len: "w \<le> r + 1 \<Longrightarrow> r + 1 - w < length ?out \<and> length (?out ! (r + 1 - w)) = m"
    using Suc.prems assms by (auto simp del: upt_Suc)
  have st: "col_step rnd df w c r (?cs ! c, ?ks ! c) = col_state rnd df w c (Suc r)" if "c < m" for c
    using that by simp
  have m1: "map (\<lambda>c. fst (col_step rnd df w c r (?cs ! c, ?ks ! c))) [0..<m] =
      map (\<lambda>c. fst (col_state rnd df w c (Suc r))) [0..<m]"
    using st by simp
  have m2: "map (\<lambda>c. snd (col_step rnd df w c r (?cs ! c, ?ks ! c))) [0..<m] =
      map (\<lambda>c. snd (col_state rnd df w c (Suc r))) [0..<m]"
    using st by simp
  have m3: "map (\<lambda>c. out_val rnd w (col_step rnd df w c r (?cs ! c, ?ks ! c))) [0..<m] =
      map (\<lambda>c. out_val rnd w (col_state rnd df w c (Suc r))) [0..<m]"
    using st by simp
  have upd: "(if w \<le> r + 1
      then ?out[r + 1 - w := map (\<lambda>c. out_val rnd w (col_state rnd df w c (Suc r))) [0..<m]]
      else ?out) =
      map (\<lambda>k. if k + w \<le> Suc r
                then map (\<lambda>c. out_val rnd w (col_state rnd df w c (k + w))) [0..<m]
                else replicate m (Fin 0)) [0..<n - w + 1]"
  proof (cases "w \<le> r + 1")
    case True
    then show ?thesis
      using Suc.prems assms
      by (auto intro!: nth_equalityI simp: nth_list_update simp del: upt_Suc)
  next
    case False
    then show ?thesis by (auto simp del: upt_Suc)
  qed
  have "fold (\<lambda>r. fold (rolling_mean_cell rnd df w r) [0..<m]) [0..<Suc r]
           (replicate m (Fin 0), replicate m 0, replicate (n - w + 1) (replicate m (Fin 0))) =
     fold (rolling_mean_cell rnd df w r) [0..<m] (?cs, ?ks, ?out)"
    using IH by simp
  also have "\<dots> = (map (\<lambda>c. fst (col_step rnd df w c r (?cs ! c, ?ks ! c))) [0..<m],
      map (\<lambda>c. snd (col_step rnd df w c r (?cs ! c, ?ks ! c))) [0..<m],
      if w \<le> r + 1
      then ?out[r + 1 - w := map (\<lambda>c. out_val rnd w (col_step rnd df w c r (?cs ! c, ?ks ! c))) [0..<m]]
      else ?out)"
    by (rule inner_fold_full) (use len in simp_all)
  finally show ?case
    unfolding m1 m2 m3 upd .
qed










lemma rolling_mean_Inr:
  assumes "1 \<le> w" "w \<le> rows df"
  shows "rolling_mean rnd w df =
     Inr \<lparr>columns = columns df, index = drop (w - 1) (index df),
          data = map (\<lambda>k. map (\<lambda>c. out_val rnd w (col_state rnd df w c (k + w))) [0..<cols df])
                   [0..<rows df - w + 1],
          index_name = index_name df\<rparr>"
proof -
  have "map (\<lambda>k. if k + w \<le> rows df
                then map (\<lambda>c. out_val rnd w (col_state rnd df w c (k + w))) [0..<cols df]
                else replicate (cols df) (Fin 0)) [0..<rows df - w + 1] =
        map (\<lambda>k. map (\<lambda>c. out_val rnd w (col_state rnd df w c (k + w))) [0..<cols df])
                   [0..<rows df - w + 1]"
    using assms by (intro map_cong) auto
  then show ?thesis
    using assms outer_fold [OF assms le_refl, of rnd df "cols df"]
    by (simp add: rolling_mean_def Let_def del: upt_Suc)
qed





subsection \<open>Correlation and covariance\<close>

lemma fold_nth_map: "fold (\<lambda>k. F (map f xs ! k)) [0..<length xs] a = fold (\<lambda>x. F (f x)) xs a"
proof -
  have "fold (\<lambda>k. F (map f xs ! k)) [0..<length xs] a =
      fold F (map (\<lambda>k. map f xs ! k) [0..<length xs]) a"
    by (simp add: fold_map comp_def)
  also have "map (\<lambda>k. map f xs ! k) [0..<length xs] = map f xs"
    using map_nth [of "map f xs"] by simp
  finally show ?thesis by (simp add: fold_map comp_def)
qed















subsection \<open>Text decoding of cells\<close>

text \<open>
  Claim C6 says that a non-empty cell field decodes only if it parses as a
  double, and that any other non-empty field makes the load fail. The code
  converts a cell with \<open>std::stod(token)\<close> and never looks at how much of the token
  was converted: \<open>std::stod\<close> converts the longest initial part of the string that
  is a number, so for the field \<open>12abc\<close> it returns 12 and does not throw, and the
  load succeeds with the cell 12. (The parser of a numeric index value,
  \<open>detail::parse_token\<close>, does reject a token with characters left over.) The
  theorem is the run of \<open>from_csv\<close>, with a string index, on the two lines
  \<open>idx,a\<close> and \<open>x,12abc\<close>, for any \<open>stod\<close> that returns 12 on \<open>12abc\<close>.
\<close>

theorem from_csv_accepts_trailing_characters:
  "stod ''12abc'' = Some (Fin 12) \<Longrightarrow>
   from_csv Some None stod (''idx,a'' @ [CHR 0x0A] @ ''x,12abc'' @ [CHR 0x0A]) True =
     Inr \<lparr>columns = [''a''], index = [''x''], data = [[Fin 12]], index_name = ''idx''\<rparr>"
  by (simp add: from_csv_def getline_def split_csv_def parse_row_def trim_def isspace_def)

theorem from_csv_accepts_trailing_characters_witness:
  "from_csv Some None (\<lambda>s. if s = ''12abc'' then Some (Fin 12) else None)
     (''idx,a'' @ [CHR 0x0A] @ ''x,12abc'' @ [CHR 0x0A]) True =
     Inr \<lparr>columns = [''a''], index = [''x''], data = [[Fin 12]], index_name = ''idx''\<rparr>"
  using from_csv_accepts_trailing_characters
    [of "\<lambda>s. if s = ''12abc'' then Some (Fin 12) else None"]
  by simp

subsection \<open>The invariant\<close>

lemma wf_frameI:
  "length (index df) = length (data df) \<Longrightarrow>
   (\<And>row. row \<in> set (data df) \<Longrightarrow> length row = length (columns df)) \<Longrightarrow> wf_frame df"
  by (simp add: wf_frame_def list_all_iff)

lemma wf_frame_index: "wf_frame df \<Longrightarrow> length (index df) = rows df"
  by (simp add: wf_frame_def rows_def)

lemma wf_frame_row: "wf_frame df \<Longrightarrow> r < rows df \<Longrightarrow> length (data df ! r) = cols df"
  by (simp add: wf_frame_def rows_def cols_def list_all_length)

lemma wf_frame_row_set: "wf_frame df \<Longrightarrow> row \<in> set (data df) \<Longrightarrow> length row = cols df"
  by (simp add: wf_frame_def cols_def list_all_iff)

lemma fold_invariant:
  "P s \<Longrightarrow> (\<And>x s. x \<in> set xs \<Longrightarrow> P s \<Longrightarrow> P (f x s)) \<Longrightarrow> P (fold f xs s)"
  by (induction xs arbitrary: s) auto

text \<open>A cell matrix of \<open>n\<close> rows of \<open>m\<close> cells.\<close>

lemma shape_update:
  assumes "length out = n" "\<forall>row \<in> set out. length row = m"
  shows "length (out[k := (out ! k)[c := v]]) = n \<and>
         (\<forall>row \<in> set (out[k := (out ! k)[c := v]]). length row = m)"
proof (cases "k < length out")
  case True
  then have "length ((out ! k)[c := v]) = m" using assms by simp
  then show ?thesis using assms True
    by (auto simp: set_conv_nth nth_list_update)
next
  case False
  then have "out[k := (out ! k)[c := v]] = out" by (intro list_update_beyond) simp
  then show ?thesis using assms by simp
qed

lemma map_result_shape:
  assumes "map_result (\<lambda>r. map_result (f r) cs) rs = Inr d"
  shows "length d = length rs \<and> (\<forall>row \<in> set d. length row = length cs)"
proof -
  have len: "length d = length rs" and
       el: "\<forall>i < length rs. map_result (f (rs ! i)) cs = Inr (d ! i)"
    using assms by (simp_all add: map_result_Inr_iff)
  have "length (d ! i) = length cs" if "i < length d" for i
    using el that len by (simp add: map_result_Inr_iff)
  then show ?thesis using len by (auto simp: set_conv_nth)
qed

subsubsection \<open>Constructors\<close>

lemma wf_empty_frame: "wf_frame empty_frame"
  by (simp add: wf_frame_def empty_frame_def)

lemma wf_from_vectors: "from_vectors indices column_names cells = Inr df \<Longrightarrow> wf_frame df"
  by (auto simp: from_vectors_def wf_frame_def list_all_iff split: if_splits)

lemma parse_row_length:
  "parse_row parse_token auto_index stod has_index df line = Inr (idx, row) \<Longrightarrow>
   length row = length (columns df)"
  by (auto simp: parse_row_def Let_def map_result_Inr_iff split: if_splits sum.splits option.splits)

lemma wf_read_rows:
  "read_rows parse_token auto_index stod has_index df lines = Inr out \<Longrightarrow> wf_frame df \<Longrightarrow>
   wf_frame out"
proof (induction lines arbitrary: df)
  case Nil
  then show ?case by simp
next
  case (Cons line rest)
  show ?case
  proof (cases "trim line = []")
    case True
    then show ?thesis using Cons by simp
  next
    case False
    then obtain idx row where
      p: "parse_row parse_token auto_index stod has_index df line = Inr (idx, row)" and
      r: "read_rows parse_token auto_index stod has_index
            (df\<lparr>index := index df @ [idx], data := data df @ [row]\<rparr>) rest = Inr out"
      using Cons.prems(1) by (auto split: sum.splits)
    have "wf_frame (df\<lparr>index := index df @ [idx], data := data df @ [row]\<rparr>)"
      using Cons.prems(2) parse_row_length [OF p] by (simp add: wf_frame_def)
    then show ?thesis using Cons.IH [OF r] by simp
  qed
qed

lemma wf_from_csv:
  "from_csv parse_token auto_index stod input has_index = Inr df \<Longrightarrow> wf_frame df"
proof -
  assume a: "from_csv parse_token auto_index stod input has_index = Inr df"
  then obtain header lines where
    "read_rows parse_token auto_index stod has_index
       \<lparr>columns = drop (if has_index then 1 else 0) (split_csv header), index = [], data = [],
        index_name = (if has_index then split_csv header ! 0 else ''index'')\<rparr> lines = Inr df"
    by (auto simp: from_csv_def Let_def split: list.splits if_splits)
  then show ?thesis
    by (rule wf_read_rows) (simp add: wf_frame_def)
qed

lemma read_many_length:
  "read_many rd n s = Inr (xs, rest) \<Longrightarrow> length xs = n"
  by (induction n arbitrary: s xs rest) (auto split: sum.splits)

lemma read_many_all:
  "read_many rd n s = Inr (xs, rest) \<Longrightarrow>
   (\<And>s x rest. rd s = Inr (x, rest) \<Longrightarrow> P x) \<Longrightarrow> \<forall>x \<in> set xs. P x"
  by (induction n arbitrary: s xs rest) (auto split: sum.splits)

lemma wf_from_binary:
  assumes "from_binary double_of_bits read_index_value input = Inr df"
  shows "wf_frame df"
proof -
  from assms obtain row_count col_count :: "64 word" and names indices cells s5 s6 s7 s8 where
    n: "read_many read_string (unat col_count) s5 = Inr (names, s6)" and
    i: "read_many read_index_value (unat row_count) s6 = Inr (indices, s7)" and
    c: "read_many (read_many (read_double double_of_bits) (unat col_count)) (unat row_count) s7 =
          Inr (cells, s8)" and
    df: "columns df = names" "index df = indices" "data df = cells"
    by (auto simp: from_binary_def split: option.splits sum.splits if_splits)
  have "\<forall>row \<in> set cells. length row = unat col_count"
    by (rule read_many_all [OF c]) (rule read_many_length)
  then show ?thesis
    using read_many_length [OF n] read_many_length [OF i] read_many_length [OF c] df
    by (simp add: wf_frame_def list_all_iff)
qed

lemma wf_random_normal:
  assumes "random_normal index_max of_row rnd draws row_count column_names mean stddev target_corr = Inr df"
  shows "wf_frame df"
proof -
  have len: "length (fold (\<lambda>col row_values. row_values[col := g col]) cs xs) = length xs"
    for g :: "nat \<Rightarrow> double" and cs xs
    by (induction cs arbitrary: xs) auto
  show ?thesis
    using assms
    by (auto simp: random_normal_def Let_def wf_frame_def list_all_iff len split: if_splits)
qed

lemma wf_random_uniform:
  "random_uniform index_max of_row draws row_count column_names min_value max_value = Inr df \<Longrightarrow>
   wf_frame df"
  by (auto simp: random_uniform_def Let_def wf_frame_def list_all_iff split: if_splits)

subsubsection \<open>Transforms\<close>

lemma wf_apply_scalar:
  assumes "apply_scalar func df = Inr out" "wf_frame df"
  shows "wf_frame out"
proof -
  from assms(1) obtain d where
    d: "map_result (map_result func) (data df) = Inr d" and
    out: "out = \<lparr>columns = columns df, index = index df, data = d, index_name = index_name df\<rparr>"
    by (auto simp: apply_scalar_def split: sum.splits)
  have len: "length d = length (data df)" and
       el: "\<forall>i < length (data df). map_result func (data df ! i) = Inr (d ! i)"
    using d by (simp_all add: map_result_Inr_iff)
  have "length (d ! i) = length (columns df)" if "i < length d" for i
  proof -
    have "length (d ! i) = length (data df ! i)"
      using el that len by (simp add: map_result_Inr_iff)
    then show ?thesis using wf_frame_row [OF assms(2), of i] that len
      by (simp add: rows_def cols_def)
  qed
  then show ?thesis using assms(2) len out
    by (auto simp: wf_frame_def list_all_iff set_conv_nth)
qed

lemma wf_apply_binary:
  assumes "apply_binary other func name df = Inr out" "wf_frame df"
  shows "wf_frame out"
proof -
  from assms(1) obtain d where
    d: "map_result (\<lambda>r. map_result (\<lambda>c. func (data df ! r ! c) (data other ! r ! c)) [0..<cols df])
          [0..<rows df] = Inr d" and
    out: "out = \<lparr>columns = columns df, index = index df, data = d, index_name = index_name df\<rparr>"
    by (auto simp: apply_binary_def split: sum.splits if_splits)
  show ?thesis
    using map_result_shape [OF d] assms(2) out
    by (simp add: wf_frame_def list_all_iff rows_def cols_def)
qed

lemma wf_differences:
  "differences df = Inr out \<Longrightarrow> wf_frame df \<Longrightarrow> wf_frame out"
  by (auto simp: differences_def wf_frame_def list_all_iff rows_def cols_def split: if_splits)

lemma wf_log_changes:
  assumes "log_changes df = Inr out" "wf_frame df"
  shows "wf_frame out"
proof -
  from assms(1) obtain d where
    d: "map_result
          (\<lambda>r. map_result
                 (\<lambda>c. let prev = data df ! (r - 1) ! c; curr = data df ! r ! c in
                      if \<not> d_gt prev (Fin 0) \<or> \<not> d_gt curr (Fin 0)
                      then Inl ''dataframe::log_changes: non-positive value encountered''
                      else Inr (d_sub (d_log curr) (d_log prev)))
                 [0..<cols df])
          [1..<rows df] = Inr d" and
    out: "out = \<lparr>columns = columns df, index = drop 1 (index df), data = d,
                 index_name = index_name df\<rparr>"
    by (auto simp: log_changes_def split: sum.splits if_splits)
  show ?thesis
    using map_result_shape [OF d] assms(2) out
    by (simp add: wf_frame_def list_all_iff rows_def cols_def)
qed

lemma wf_proportional_changes:
  assumes "proportional_changes df = Inr out" "wf_frame df"
  shows "wf_frame out"
proof -
  from assms(1) obtain d where
    d: "map_result
          (\<lambda>r. map_result
                 (\<lambda>c. let prev = data df ! (r - 1) ! c; curr = data df ! r ! c in
                      if d_eq prev (Fin 0)
                      then Inl ''dataframe::proportional_changes: zero value encountered''
                      else Inr (d_div (d_sub curr prev) prev))
                 [0..<cols df])
          [1..<rows df] = Inr d" and
    out: "out = \<lparr>columns = columns df, index = drop 1 (index df), data = d,
                 index_name = index_name df\<rparr>"
    by (auto simp: proportional_changes_def split: sum.splits if_splits)
  show ?thesis
    using map_result_shape [OF d] assms(2) out
    by (simp add: wf_frame_def list_all_iff rows_def cols_def)
qed

lemma wf_standardize: "standardize rnd df = Inr out \<Longrightarrow> wf_frame df \<Longrightarrow> wf_frame out"
  by (auto simp: standardize_def wf_frame_def list_all_iff rows_def cols_def split: if_splits)

lemma wf_normalize: "normalize rnd df = Inr out \<Longrightarrow> wf_frame df \<Longrightarrow> wf_frame out"
  by (auto simp: normalize_def wf_frame_def list_all_iff rows_def cols_def split: if_splits)

subsubsection \<open>Selection and ordering\<close>

lemma wf_select_rows_by_positions:
  assumes "select_rows_by_positions positions df = Inr out" "wf_frame df"
  shows "wf_frame out"
proof -
  from assms(1) have b: "\<forall>pos \<in> set positions. pos < rows df" and
    out: "out = \<lparr>columns = columns df, index = map (\<lambda>pos. index df ! pos) positions,
                 data = map (\<lambda>pos. data df ! pos) positions, index_name = index_name df\<rparr>"
    by (auto simp: select_rows_by_positions_def split: if_splits)
  show ?thesis
    unfolding out using b wf_frame_row [OF assms(2)]
    by (auto intro!: wf_frameI simp: cols_def)
qed

lemma wf_select_columns_by_positions:
  "select_columns_by_positions positions df = Inr out \<Longrightarrow> wf_frame df \<Longrightarrow> wf_frame out"
  by (auto simp: select_columns_by_positions_def wf_frame_def list_all_iff rows_def
           split: if_splits)

lemma wf_select_rows: "select_rows vals df = Inr out \<Longrightarrow> wf_frame df \<Longrightarrow> wf_frame out"
  by (auto simp: select_rows_def split: sum.splits intro: wf_select_rows_by_positions)

lemma wf_select_columns: "select_columns names df = Inr out \<Longrightarrow> wf_frame df \<Longrightarrow> wf_frame out"
  by (auto simp: select_columns_def split: sum.splits intro: wf_select_columns_by_positions)

lemma wf_slice_rows_range:
  "slice_rows_range lt le ge start end inclusive_end df = Inr out \<Longrightarrow> wf_frame df \<Longrightarrow>
   wf_frame out"
  unfolding slice_rows_range_def by (rule wf_select_rows_by_positions)

lemma wf_head_rows: "head_rows cnt df = Inr out \<Longrightarrow> wf_frame df \<Longrightarrow> wf_frame out"
  by (auto simp: head_rows_def split: if_splits intro: wf_select_rows_by_positions)

lemma wf_tail_rows: "tail_rows cnt df = Inr out \<Longrightarrow> wf_frame df \<Longrightarrow> wf_frame out"
  by (auto simp: tail_rows_def split: if_splits intro: wf_select_rows_by_positions)

lemma wf_head_columns: "head_columns cnt df = Inr out \<Longrightarrow> wf_frame df \<Longrightarrow> wf_frame out"
  by (auto simp: head_columns_def split: if_splits intro: wf_select_columns_by_positions)

lemma wf_tail_columns: "tail_columns cnt df = Inr out \<Longrightarrow> wf_frame df \<Longrightarrow> wf_frame out"
  by (auto simp: tail_columns_def split: if_splits intro: wf_select_columns_by_positions)

lemma wf_remove_rows_with_nan:
  "remove_rows_with_nan df = Inr out \<Longrightarrow> wf_frame df \<Longrightarrow> wf_frame out"
  unfolding remove_rows_with_nan_def by (rule wf_select_rows_by_positions)

lemma wf_remove_columns_with_nan:
  "remove_columns_with_nan df = Inr out \<Longrightarrow> wf_frame df \<Longrightarrow> wf_frame out"
  unfolding remove_columns_with_nan_def by (rule wf_select_columns_by_positions)

lemma wf_add_column:
  "add_column name vals df = Inr out \<Longrightarrow> wf_frame df \<Longrightarrow> wf_frame out"
  by (auto simp: add_column_def wf_frame_def list_all_iff rows_def list_all_length
           split: if_splits)

lemma wf_sort_rows_by_column:
  assumes "sort_rows_by_column column_name ascending df = Inr out" "wf_frame df"
  shows "wf_frame out"
proof -
  from assms(1) obtain column_index where
    out: "out = \<lparr>columns = columns df,
                 index = map (\<lambda>position. index df ! position)
                   (stable_sort (comparator (\<lambda>pos. data df ! pos ! column_index) ascending)
                      [0..<rows df]),
                 data = map (\<lambda>position. data df ! position)
                   (stable_sort (comparator (\<lambda>pos. data df ! pos ! column_index) ascending)
                      [0..<rows df]),
                 index_name = index_name df\<rparr>"
    by (auto simp: sort_rows_by_column_def Let_def split: sum.splits if_splits)
  show ?thesis
    unfolding out using wf_frame_row [OF assms(2)]
    by (auto intro!: wf_frameI simp: cols_def)
qed

lemma wf_sort_columns_by_row:
  "sort_columns_by_row index_value ascending df = Inr out \<Longrightarrow> wf_frame df \<Longrightarrow> wf_frame out"
  by (auto simp: sort_columns_by_row_def Let_def wf_frame_def list_all_iff rows_def
           split: sum.splits if_splits)

subsubsection \<open>Rolling and sequential operations\<close>

lemma wf_rolling_mean:
  assumes "rolling_mean rnd window df = Inr out" "wf_frame df"
  shows "wf_frame out"
proof -
  from assms(1) have w: "1 \<le> window" "window \<le> rows df"
    by (auto simp: rolling_mean_def split: if_splits)
  show ?thesis
    using assms rolling_mean_Inr [OF w, of rnd] wf_frame_index [OF assms(2)] w
    by (auto intro!: wf_frameI simp del: upt_Suc simp: cols_def)
qed

lemma rolling_std_cell_shape:
  assumes "length (snd (snd (snd st))) = n \<and> (\<forall>row \<in> set (snd (snd (snd st))). length row = m)"
  shows "length (snd (snd (snd (rolling_std_cell rnd df window r c st)))) = n \<and>
         (\<forall>row \<in> set (snd (snd (snd (rolling_std_cell rnd df window r c st)))). length row = m)"
proof -
  obtain csums sums_sq valid_counts out where st: "st = (csums, sums_sq, valid_counts, out)"
    by (cases st) auto
  have o: "length out = n" "\<forall>row \<in> set out. length row = m"
    using assms st by simp_all
  show ?thesis
    unfolding st rolling_std_cell_def Let_def
    using shape_update [OF o] o by (simp split: if_splits)
qed

lemma wf_rolling_std:
  assumes "rolling_std rnd window df = Inr out" "wf_frame df"
  shows "wf_frame out"
proof -
  let ?P = "\<lambda>st :: double list \<times> double list \<times> int list \<times> double list list.
              length (snd (snd (snd st))) = rows df - window + 1 \<and>
              (\<forall>row \<in> set (snd (snd (snd st))). length row = cols df)"
  let ?init = "(replicate (cols df) (Fin 0), replicate (cols df) (Fin 0),
               replicate (cols df) (0 :: int),
               replicate (rows df - window + 1) (replicate (cols df) (Fin 0)))"
  let ?st = "fold (\<lambda>r. fold (rolling_std_cell rnd df window r) [0..<cols df]) [0..<rows df] ?init"
  from assms(1) have w: "1 \<le> window" "window \<le> rows df" and
    out: "out = \<lparr>columns = columns df, index = drop (window - 1) (index df),
                 data = snd (snd (snd ?st)), index_name = index_name df\<rparr>"
    by (auto simp: rolling_std_def Let_def split: if_splits)
  have "?P ?init" by simp
  then have "?P ?st"
    by (intro fold_invariant [where P = ?P] rolling_std_cell_shape)
  then show ?thesis
    unfolding out using wf_frame_index [OF assms(2)] w
    by (intro wf_frameI) (auto simp: cols_def)
qed

lemma rolling_rms_cell_shape:
  assumes "length (snd (snd st)) = n \<and> (\<forall>row \<in> set (snd (snd st)). length row = m)"
  shows "length (snd (snd (rolling_rms_cell rnd df window r c st))) = n \<and>
         (\<forall>row \<in> set (snd (snd (rolling_rms_cell rnd df window r c st))). length row = m)"
proof -
  obtain sums_sq valid_counts out where st: "st = (sums_sq, valid_counts, out)"
    by (cases st) auto
  have o: "length out = n" "\<forall>row \<in> set out. length row = m"
    using assms st by simp_all
  show ?thesis
    unfolding st rolling_rms_cell_def Let_def
    using shape_update [OF o] o by (simp split: if_splits)
qed

lemma wf_rolling_rms:
  assumes "rolling_rms rnd window df = Inr out" "wf_frame df"
  shows "wf_frame out"
proof -
  let ?P = "\<lambda>st :: double list \<times> int list \<times> double list list.
              length (snd (snd st)) = rows df - window + 1 \<and>
              (\<forall>row \<in> set (snd (snd st)). length row = cols df)"
  let ?zeros = "replicate (rows df - window + 1) (replicate (cols df) (Fin 0))"
  let ?init = "(replicate (cols df) (Fin 0), replicate (cols df) (0 :: int), ?zeros)"
  let ?st = "fold (\<lambda>r. fold (rolling_rms_cell rnd df window r) [0..<cols df]) [0..<rows df] ?init"
  from assms(1) have w: "1 \<le> window" "window \<le> rows df"
    by (auto simp: rolling_rms_def Let_def split: if_splits)
  have "?P ?init" by simp
  then have P: "?P ?st"
    by (intro fold_invariant [where P = ?P] rolling_rms_cell_shape)
  show ?thesis
  proof (cases "cols df = 0")
    case True
    then have "out = \<lparr>columns = columns df, index = drop (window - 1) (index df),
                 data = ?zeros, index_name = index_name df\<rparr>"
      using assms(1) w by (auto simp: rolling_rms_def Let_def split: if_splits)
    then show ?thesis
      using wf_frame_index [OF assms(2)] w
      by (intro wf_frameI) (auto simp: cols_def)
  next
    case False
    then have "out = \<lparr>columns = columns df, index = drop (window - 1) (index df),
                 data = snd (snd ?st), index_name = index_name df\<rparr>"
      using assms(1) w by (auto simp: rolling_rms_def Let_def split: if_splits)
    then show ?thesis
      using wf_frame_index [OF assms(2)] w P
      by (intro wf_frameI) (auto simp: cols_def)
  qed
qed

lemma wf_exponential_moving_average:
  "exponential_moving_average rnd alpha df = Inr out \<Longrightarrow> wf_frame df \<Longrightarrow> wf_frame out"
  by (auto simp: exponential_moving_average_def wf_frame_def list_all_iff rows_def cols_def
           split: if_splits)

lemma wf_resample_rows:
  assumes "resample_rows integral picks sample_size reset_index df = Inr out" "wf_frame df"
    "\<forall>i. picks i < rows df"
  shows "wf_frame out"
proof -
  from assms(1) obtain n where
    out: "out = \<lparr>columns = columns df,
                 index = map (\<lambda>i. case integral of
                                Some conv \<Rightarrow> if reset_index then conv i else index df ! picks i
                              | None \<Rightarrow> index df ! picks i) [0..<n],
                 data = map (\<lambda>i. data df ! picks i) [0..<n],
                 index_name = (if reset_index \<and> integral \<noteq> None then ''resample_index''
                               else index_name df)\<rparr>"
    by (auto simp: resample_rows_def Let_def split: if_splits)
  show ?thesis
    unfolding out using wf_frame_row [OF assms(2)] assms(3)
    by (auto intro!: wf_frameI simp: cols_def)
qed

subsubsection \<open>Aggregations\<close>

lemma wf_column_stats_dataframe:
  "column_stats_dataframe rnd std_pow df = Inr out \<Longrightarrow> wf_frame out"
  by (auto simp: column_stats_dataframe_def Let_def wf_frame_def cols_def)

lemma wf_correlation_matrix: "correlation_matrix rnd df = Inr out \<Longrightarrow> wf_frame out"
  by (auto simp: correlation_matrix_def Let_def wf_frame_def list_all_iff cols_def
           split: if_splits)

lemma wf_covariance_matrix: "covariance_matrix rnd df = Inr out \<Longrightarrow> wf_frame out"
  by (auto simp: covariance_matrix_def Let_def wf_frame_def list_all_iff cols_def
           split: if_splits)

lemma wf_spearman_correlation_matrix:
  "spearman_correlation_matrix rnd df = Some (Inr out) \<Longrightarrow> wf_frame out"
  by (auto simp: spearman_correlation_matrix_def split: if_splits sum.splits option.splits
           intro: wf_correlation_matrix)

lemma wf_kendall_tau_matrix: "kendall_tau_matrix rnd df = Inr out \<Longrightarrow> wf_frame out"
  by (auto simp: kendall_tau_matrix_def wf_frame_def list_all_iff cols_def split: if_splits)

lemma wf_column_percentiles:
  assumes "column_percentiles fmt percentiles df = Inr out"
  shows "wf_frame out"
proof -
  from assms obtain d where
    d: "map_result
          (\<lambda>p_idx. map_result
             (\<lambda>c. let vals = column_values df c in
                  if vals = [] then Inr NaN
                  else percentile_of (stable_sort d_lt vals) (percentiles ! p_idx))
             [0..<cols df])
          [0..<length percentiles] = Inr d" and
    out: "out = \<lparr>columns = columns df, index = map fmt percentiles, data = d,
                 index_name = ''percentile''\<rparr>"
    by (auto simp: column_percentiles_def split: sum.splits if_splits)
  show ?thesis
    using map_result_shape [OF d] out
    by (simp add: wf_frame_def list_all_iff cols_def)
qed

subsubsection \<open>The ranking loop ends\<close>

lemma rank_loop_Some:
  assumes "\<forall>p \<in> set vals. d_eq (fst p) (fst p)"
  shows "\<exists>rk. rank_loop rnd c vals i ranked = Some rk"
proof (induction "length vals - i" arbitrary: i ranked rule: less_induct)
  case less
  show ?case
  proof (cases "i < length vals")
    case False
    then show ?thesis by (subst rank_loop.simps) simp
  next
    case True
    define k where "k = length (takeWhile (\<lambda>p. d_eq (fst p) (fst (vals ! i))) (drop i vals))"
    have "drop i vals = vals ! i # drop (Suc i) vals"
      using True by (simp add: Cons_nth_drop_Suc)
    moreover have "d_eq (fst (vals ! i)) (fst (vals ! i))"
      using assms True by simp
    ultimately have k: "0 < k" unfolding k_def by simp
    have "k \<le> length (drop i vals)"
      unfolding k_def by (rule length_takeWhile_le)
    then have "i + k \<le> length vals" using True by simp
    then have "length vals - (i + k) < length vals - i" using k True by arith
    from less [OF this] obtain rk where
      rk: "\<And>ranked1. \<exists>rk. rank_loop rnd c vals (i + k) ranked1 = Some rk"
      by blast
    have "rank_loop rnd c vals i ranked =
            rank_loop rnd c vals (i + k)
              (fold (\<lambda>ka rk. rk[snd (vals ! ka) := (rk ! snd (vals ! ka))
                       [c := r_div rnd (fold (\<lambda>k s. r_add rnd s (of_size_t (k + 1))) [i..<i + k] (Fin 0))
                               (of_size_t (i + k - i))]])
                 [i..<i + k] ranked)"
      using True k
      by (subst rank_loop.simps) (simp add: Let_def k_def [symmetric] del: rank_loop.simps)
    then show ?thesis using rk by simp
  qed
qed

lemma rank_column_Some:
  "rank_column rnd df c ranked = Inr res \<Longrightarrow> res \<noteq> None"
proof -
  assume a: "rank_column rnd df c ranked = Inr res"
  let ?vals = "filter (\<lambda>p. d_eq (fst p) (fst p)) (map (\<lambda>r. (data df ! r ! c, r)) [0..<rows df])"
  let ?sorted = "stable_sort (\<lambda>a b. if d_eq (fst a) (fst b) then snd a < snd b
                                     else d_lt (fst a) (fst b)) ?vals"
  have "\<forall>p \<in> set ?sorted. d_eq (fst p) (fst p)" by simp
  from rank_loop_Some [OF this, of rnd c 0 ranked] a show ?thesis
    by (auto simp: rank_column_def Let_def simp del: rank_loop.simps split: if_splits)
qed

lemma rank_columns_Some:
  "rank_columns rnd df cs ranked = Inr res \<Longrightarrow> res \<noteq> None"
proof (induction cs arbitrary: ranked)
  case Nil
  then show ?case by auto
next
  case (Cons c cs)
  then show ?case
    using rank_column_Some [of rnd df c ranked]
    by (auto split: sum.splits option.splits)
qed

lemma spearman_correlation_matrix_returns:
  "\<exists>res. spearman_correlation_matrix rnd df = Some res"
  using rank_columns_Some [of rnd df "[0..<cols df]" "data df"]
  by (auto simp: spearman_correlation_matrix_def split: sum.splits option.splits)

end
